theory Spec2Isabelle
  imports Complex_Main "HOL-Library.Sublist"
begin

section \<open>JavaScript values of a parsed JSON request body\<close>

text \<open>
  \<^verbatim>\<open>server.js\<close> reads every field of \<^verbatim>\<open>req.body\<close> untyped, so the model
  keeps the JavaScript value and the coercions the handler applies to it.

  A number is a double, kept by its exact value, or an infinity (the JSON number
  \<^verbatim>\<open>1e999\<close> parses to one) or \<open>NaN\<close>; negative zero is zero, which no operation of
  the handler tells apart. A string is the list of the bytes of its UTF-8 encoding (a
  lone surrogate encoded like any code point): what the handler itself does with a
  string, comparing it with an ASCII literal, searching it for one, cutting one out
  and putting one in front, acts on the encoding as it does on the string. Arrays and
  nested objects of a body are outside the model.
\<close>

datatype jsnumber = NotANumber | Fin rat | PosInf | NegInf

datatype jsval = JUndefined | JNull | JBool bool | JNum jsnumber | JStr string

text \<open>\<^verbatim>\<open>ToBoolean\<close>: what \<^verbatim>\<open>if (v)\<close> and \<^verbatim>\<open>!v\<close> test.\<close>

fun truthy :: "jsval \<Rightarrow> bool" where
  "truthy JUndefined = False"
| "truthy JNull = False"
| "truthy (JBool b) = b"
| "truthy (JNum n) = (n \<noteq> Fin 0 \<and> n \<noteq> NotANumber)"
| "truthy (JStr s) = (s \<noteq> [])"

definition is_string :: "jsval \<Rightarrow> bool" where
  "is_string v = (case v of JStr _ \<Rightarrow> True | _ \<Rightarrow> False)"

definition is_number :: "jsval \<Rightarrow> bool" where
  "is_number v = (case v of JNum _ \<Rightarrow> True | _ \<Rightarrow> False)"

definition isNaN :: "jsnumber \<Rightarrow> bool" where
  "isNaN n = (n = NotANumber)"

subsection \<open>String methods\<close>

text \<open>\<^verbatim>\<open>s.includes(pat)\<close>: \<open>pat\<close> occurs in \<open>s\<close> at some position.\<close>

fun str_includes :: "string \<Rightarrow> string \<Rightarrow> bool" where
  "str_includes [] pat = (pat = [])"
| "str_includes (c # cs) pat = (prefix pat (c # cs) \<or> str_includes cs pat)"

text \<open>
  \<^verbatim>\<open>s.replace(pat, rep)\<close> with a string pattern: the first occurrence of \<open>pat\<close> is
  replaced, a string without one is returned as it is. (The handler's replacement is the
  empty string, so the \<^verbatim>\<open>$\<close> patterns of a replacement play no part.)
\<close>

fun str_replace :: "string \<Rightarrow> string \<Rightarrow> string \<Rightarrow> string" where
  "str_replace [] pat rep = (if pat = [] then rep else [])"
| "str_replace (c # cs) pat rep =
     (if prefix pat (c # cs) then rep @ drop (length pat) (c # cs) else c # str_replace cs pat rep)"

section \<open>What the server calls: the browser engine, the response, the JavaScript engine\<close>

text \<open>
  The browser engine is outside the repository. The model records every call the server
  makes to it, with the arguments the server computed (the fixed options of the launch
  apart), and takes the way each call settles from an environment: \<open>Inr v\<close> when the
  promise resolves with \<open>v\<close>, \<open>Inl m\<close> when it rejects with an \<^verbatim>\<open>Error\<close> whose
  message is \<open>m\<close>. A run of a handler makes each call at most once, so one way of
  settling for each call covers whatever the engine may do.

  \<^verbatim>\<open>res.set\<close> is a call of the same kind: the web framework throws on a header value
  it does not accept (a Content-Type with a line break in it, say), so whether the call
  returns or throws is the environment's as well.

  So are the conversions of the JavaScript engine between strings and numbers, which
  round to doubles, know the exponent notation and trim Unicode white space: the string
  of a number (\<^verbatim>\<open>ToString\<close>), \<^verbatim>\<open>parseInt\<close> of a string, the number of a string
  (\<^verbatim>\<open>ToNumber\<close>). A theorem about every environment holds of the engine's
  conversions. The clock and the \<^verbatim>\<open>NODE_ENV\<close> variable are part of the environment
  too.
\<close>

type_synonym browser_handle = nat
type_synonym page_handle = nat
type_synonym buffer = "nat list"

text \<open>The object passed to \<^verbatim>\<open>page.screenshot\<close>; a quality of \<open>None\<close> is \<^verbatim>\<open>undefined\<close>.\<close>

record screenshot_options =
  shot_type :: jsval
  shot_fullPage :: jsval
  shot_quality :: "jsnumber option"

datatype call =
    Launch
  | NewPage browser_handle
  | SetViewportSize page_handle jsnumber jsnumber
  | AddStyleTag page_handle jsval
  | SetContent page_handle jsval jsnumber
  | Evaluate page_handle jsval
  | WaitForSelector page_handle string jsnumber
  | WaitForTimeout page_handle jsnumber
  | Screenshot page_handle screenshot_options
  | SetHeaders "(string \<times> string) list"
  | Close page_handle

datatype outcome = Resolved | Rejected string

text \<open>
  A response as the handler makes it: the status, the headers the handler itself sets
  (what the framework and the middleware add is not part of it) and the body, a JSON
  object by its fields or the bytes of the image.
\<close>

datatype payload = Json "(string \<times> string) list" | Image buffer

record response =
  status :: nat
  headers :: "(string \<times> string) list"
  payload :: payload

datatype event = Called call outcome | Logged string | Sent response

record env =
  launch_result :: "string + browser_handle"
  newPage_result :: "string + page_handle"
  setViewportSize_result :: "string + unit"
  addStyleTag_result :: "string + unit"
  setContent_result :: "string + unit"
  evaluate_result :: "string + unit"
  waitForSelector_result :: "string + unit"
  waitForTimeout_result :: "string + unit"
  screenshot_result :: "string + buffer"
  setHeaders_result :: "string + unit"
  close_result :: "string + unit"
  isConnected :: "browser_handle \<Rightarrow> bool"
  now :: string
  node_env :: "string option"
  number_toString :: "jsnumber \<Rightarrow> string"
  string_parseInt :: "string \<Rightarrow> jsnumber"
  string_toNumber :: "string \<Rightarrow> jsnumber"

subsection \<open>Coercions\<close>

text \<open>\<^verbatim>\<open>ToString\<close>, as the template literal and \<^verbatim>\<open>parseInt\<close> apply it.\<close>

definition to_string :: "env \<Rightarrow> jsval \<Rightarrow> string" where
  "to_string env v =
     (case v of
        JUndefined \<Rightarrow> ''undefined''
      | JNull \<Rightarrow> ''null''
      | JBool b \<Rightarrow> (if b then ''true'' else ''false'')
      | JNum n \<Rightarrow> number_toString env n
      | JStr s \<Rightarrow> s)"

text \<open>\<^verbatim>\<open>parseInt(v)\<close> converts its argument to a string and reads that.\<close>

definition parseInt :: "env \<Rightarrow> jsval \<Rightarrow> jsnumber" where
  "parseInt env v = string_parseInt env (to_string env v)"

text \<open>\<^verbatim>\<open>ToNumber\<close>, as the relational operators apply it.\<close>

definition to_number :: "env \<Rightarrow> jsval \<Rightarrow> jsnumber" where
  "to_number env v =
     (case v of
        JUndefined \<Rightarrow> NotANumber
      | JNull \<Rightarrow> Fin 0
      | JBool b \<Rightarrow> Fin (if b then 1 else 0)
      | JNum n \<Rightarrow> n
      | JStr s \<Rightarrow> string_toNumber env s)"

text \<open>
  \<^verbatim>\<open>v > k\<close> for a number \<open>k\<close>: the operand is converted to a number, and a
  comparison with \<open>NaN\<close> is false.
\<close>

definition js_gt :: "env \<Rightarrow> jsval \<Rightarrow> int \<Rightarrow> bool" where
  "js_gt env v k = (case to_number env v of
                      NotANumber \<Rightarrow> False
                    | Fin q \<Rightarrow> of_int k < q
                    | PosInf \<Rightarrow> True
                    | NegInf \<Rightarrow> False)"

section \<open>The server's state and its statements\<close>

text \<open>
  \<open>browser\<close> is the module's global variable (\<open>None\<close> is \<^verbatim>\<open>null\<close>), \<open>page\<close> the
  local variable of the \<^verbatim>\<open>/convert\<close> handler, \<open>trace\<close> what the run has done so far.
\<close>

record state =
  browser :: "browser_handle option"
  page :: "page_handle option"
  trace :: "event list"

text \<open>
  A statement completes normally with a value, or abruptly: by throwing an error (kept
  by its message) or by a \<^verbatim>\<open>return\<close> out of the enclosing function.
\<close>

datatype abrupt = Throw string | Return

type_synonym 'a io = "state \<Rightarrow> (abrupt + 'a) \<times> state"

definition ret :: "'a \<Rightarrow> 'a io" where
  "ret x = (\<lambda>s. (Inr x, s))"

definition throw :: "string \<Rightarrow> 'a io" where
  "throw m = (\<lambda>s. (Inl (Throw m), s))"

definition return_stmt :: "'a io" where
  "return_stmt = (\<lambda>s. (Inl Return, s))"

definition bind :: "'a io \<Rightarrow> ('a \<Rightarrow> 'b io) \<Rightarrow> 'b io" where
  "bind m f = (\<lambda>s. case m s of (Inl a, s') \<Rightarrow> (Inl a, s') | (Inr x, s') \<Rightarrow> f x s')"

definition seq :: "unit io \<Rightarrow> 'a io \<Rightarrow> 'a io" where
  "seq m k = bind m (\<lambda>_. k)"

definition if_stmt :: "bool \<Rightarrow> unit io \<Rightarrow> unit io" where
  "if_stmt c m = (if c then m else ret ())"

definition try_catch :: "'a io \<Rightarrow> (string \<Rightarrow> 'a io) \<Rightarrow> 'a io" where
  "try_catch m h = (\<lambda>s. case m s of (Inl (Throw e), s') \<Rightarrow> h e s' | r \<Rightarrow> r)"

text \<open>The \<^verbatim>\<open>finally\<close> block runs on every completion; its own abrupt completion wins.\<close>

definition try_finally :: "'a io \<Rightarrow> unit io \<Rightarrow> 'a io" where
  "try_finally m f =
     (\<lambda>s. case m s of
            (r, s') \<Rightarrow> (case f s' of (Inl a, s'') \<Rightarrow> (Inl a, s'') | (Inr _, s'') \<Rightarrow> (r, s'')))"

text \<open>The body of a function: a \<^verbatim>\<open>return\<close> statement ends it normally.\<close>

definition function_body :: "unit io \<Rightarrow> unit io" where
  "function_body m = (\<lambda>s. case m s of (Inl Return, s') \<Rightarrow> (Inr (), s') | r \<Rightarrow> r)"

definition emit :: "event \<Rightarrow> unit io" where
  "emit e = (\<lambda>s. (Inr (), s\<lparr>trace := trace s @ [e]\<rparr>))"

definition log :: "string \<Rightarrow> unit io" where
  "log m = emit (Logged m)"

definition send :: "response \<Rightarrow> unit io" where
  "send r = emit (Sent r)"

text \<open>
  A call whose outcome is the environment's; the call is recorded as it settles. The
  calls to the browser engine are awaited; \<^verbatim>\<open>res.set\<close> returns or throws at once,
  which is the same in the run of one handler.
\<close>

definition await :: "call \<Rightarrow> string + 'a \<Rightarrow> 'a io" where
  "await c r =
     (case r of
        Inl m \<Rightarrow> seq (emit (Called c (Rejected m))) (throw m)
      | Inr v \<Rightarrow> seq (emit (Called c Resolved)) (ret v))"

definition get_browser :: "browser_handle option io" where
  "get_browser = (\<lambda>s. (Inr (browser s), s))"

definition set_browser :: "browser_handle option \<Rightarrow> unit io" where
  "set_browser b = (\<lambda>s. (Inr (), s\<lparr>browser := b\<rparr>))"

definition get_page :: "page_handle option io" where
  "get_page = (\<lambda>s. (Inr (page s), s))"

definition set_page :: "page_handle option \<Rightarrow> unit io" where
  "set_page p = (\<lambda>s. (Inr (), s\<lparr>page := p\<rparr>))"

section \<open>initBrowser\<close>

text \<open>
  Lines 41 to 69. The launch runs only when the global is \<^verbatim>\<open>null\<close>; the global is
  assigned when the launch resolves; the function returns the global.
\<close>

definition initBrowser :: "env \<Rightarrow> browser_handle option io" where
  "initBrowser env =
     try_catch
       (seq (bind get_browser (\<lambda>b.
               if_stmt (b = None)
                 (seq (log ''Launching browser...'')
                 (bind (await Launch (launch_result env)) (\<lambda>h.
                  seq (set_browser (Some h))
                      (log ''Browser launched successfully''))))))
            get_browser)
       (\<lambda>error. seq (log (''Failed to launch browser: '' @ error)) (throw error))"

section \<open>GET /health\<close>

text \<open>
  Lines 85 to 102. \<^verbatim>\<open>browserInstance && !browserInstance.isConnected() === false\<close>
  negates first and compares with \<^verbatim>\<open>false\<close> second; a \<^verbatim>\<open>null\<close> instance makes
  the conjunction falsy.
\<close>

definition isHealthy :: "env \<Rightarrow> browser_handle option \<Rightarrow> bool" where
  "isHealthy env browserInstance =
     (case browserInstance of
        None \<Rightarrow> False
      | Some h \<Rightarrow> ((\<not> isConnected env h) = False))"

definition health :: "env \<Rightarrow> unit io" where
  "health env =
     try_catch
       (bind (initBrowser env) (\<lambda>browserInstance.
          (let healthy = isHealthy env browserInstance
           in send \<lparr>status = 200, headers = [],
                    payload = Json [(''status'', if healthy then ''healthy'' else ''unhealthy''),
                                    (''timestamp'', now env),
                                    (''browser'', if healthy then ''connected'' else ''disconnected'')]\<rparr>)))
       (\<lambda>error. send \<lparr>status = 500, headers = [],
                        payload = Json [(''status'', ''unhealthy''),
                                        (''error'', error),
                                        (''timestamp'', now env)]\<rparr>)"

section \<open>POST /convert\<close>

text \<open>
  The body of a request is the object the JSON middleware parsed, a map from field names
  to values. A field of the destructured body: the default stands in for a field that is
  absent (or \<^verbatim>\<open>undefined\<close>).
\<close>

definition field :: "(string \<rightharpoonup> jsval) \<Rightarrow> string \<Rightarrow> jsval \<Rightarrow> jsval" where
  "field body k d = (case body k of None \<Rightarrow> d | Some v \<Rightarrow> (if v = JUndefined then d else v))"

text \<open>Lines 160 to 168: the wait before the capture.\<close>

definition wait_step :: "env \<Rightarrow> page_handle \<Rightarrow> jsval \<Rightarrow> jsval \<Rightarrow> unit io" where
  "wait_step env p waitFor timeout =
     if_stmt (truthy waitFor)
       (if is_string waitFor \<and> str_includes (to_string env waitFor) ''selector:''
        then (let selector = str_replace (to_string env waitFor) ''selector:'' []
              in await (WaitForSelector p selector (parseInt env timeout)) (waitForSelector_result env))
        else if is_number waitFor \<or> \<not> isNaN (parseInt env waitFor)
        then await (WaitForTimeout p (parseInt env waitFor)) (waitForTimeout_result env)
        else ret ())"

text \<open>Lines 170 to 175.\<close>

definition screenshotOptions :: "env \<Rightarrow> jsval \<Rightarrow> jsval \<Rightarrow> jsval \<Rightarrow> screenshot_options" where
  "screenshotOptions env format fullPage quality =
     \<lparr>shot_type = format,
      shot_fullPage = fullPage,
      shot_quality = (if format = JStr ''jpeg'' then Some (parseInt env quality) else None)\<rparr>"

text \<open>
  Lines 180 to 186: the object passed to \<^verbatim>\<open>res.set\<close>, each value as the string the
  header carries.
\<close>

definition image_headers :: "env \<Rightarrow> jsval \<Rightarrow> buffer \<Rightarrow> (string \<times> string) list" where
  "image_headers env format screenshot =
     [(''Content-Type'', ''image/'' @ to_string env format),
      (''Content-Length'', number_toString env (Fin (of_nat (length screenshot)))),
      (''Cache-Control'', ''no-cache, no-store, must-revalidate''),
      (''Pragma'', ''no-cache''),
      (''Expires'', ''0'')]"

text \<open>Lines 108 to 189: the \<^verbatim>\<open>try\<close> block.\<close>

definition convert_try :: "env \<Rightarrow> (string \<rightharpoonup> jsval) \<Rightarrow> unit io" where
  "convert_try env body =
     (let html = field body ''html'' JUndefined;
          width = field body ''width'' (JNum (Fin 1280));
          height = field body ''height'' (JNum (Fin 720));
          fullPage = field body ''fullPage'' (JBool False);
          quality = field body ''quality'' (JNum (Fin 100));
          format = field body ''format'' (JStr ''png'');
          waitFor = field body ''waitFor'' JNull;
          css = field body ''css'' (JStr []);
          javascript = field body ''javascript'' (JStr []);
          timeout = field body ''timeout'' (JNum (Fin 30000))
      in if \<not> truthy html
         then seq (send \<lparr>status = 400, headers = [],
                         payload = Json [(''error'', ''HTML content is required''),
                                         (''message'', ''Please provide HTML content in the request body'')]\<rparr>)
                  return_stmt
         else if js_gt env width 3840 \<or> js_gt env height 2160
         then seq (send \<lparr>status = 400, headers = [],
                         payload = Json [(''error'', ''Dimensions too large''),
                                         (''message'', ''Maximum dimensions are 3840x2160'')]\<rparr>)
                  return_stmt
         else
           bind (initBrowser env) (\<lambda>browserInstance.
           bind (case browserInstance of
                   None \<Rightarrow> throw ''Cannot read properties of null (reading newPage)''
                 | Some b \<Rightarrow> await (NewPage b) (newPage_result env)) (\<lambda>p.
           seq (set_page (Some p))
          (seq (await (SetViewportSize p (parseInt env width) (parseInt env height))
                      (setViewportSize_result env))
          (seq (if_stmt (truthy css) (await (AddStyleTag p css) (addStyleTag_result env)))
          (seq (await (SetContent p html (parseInt env timeout)) (setContent_result env))
          (seq (if_stmt (truthy javascript) (await (Evaluate p javascript) (evaluate_result env)))
          (seq (wait_step env p waitFor timeout)
          (bind (await (Screenshot p (screenshotOptions env format fullPage quality))
                       (screenshot_result env))
             (\<lambda>screenshot.
           seq (await (SetHeaders (image_headers env format screenshot)) (setHeaders_result env))
               (send \<lparr>status = 200, headers = image_headers env format screenshot,
                      payload = Image screenshot\<rparr>)))))))))))"

text \<open>Lines 194 to 207: the status and the message for a caught error.\<close>

definition error_status :: "string \<Rightarrow> nat \<times> string" where
  "error_status message =
     (if str_includes message ''timeout''
      then (408, ''Request timeout - page took too long to load'')
      else if str_includes message ''net::ERR_''
      then (400, ''Network error loading resources'')
      else if str_includes message ''Protocol error''
      then (500, ''Browser protocol error'')
      else (500, ''Internal server error during conversion''))"

text \<open>
  Lines 191 to 213: the \<^verbatim>\<open>catch\<close> block. A \<^verbatim>\<open>details\<close> of \<^verbatim>\<open>undefined\<close> is
  left out of the JSON body.
\<close>

definition convert_catch :: "env \<Rightarrow> string \<Rightarrow> unit io" where
  "convert_catch env message =
     seq (log (''Conversion error: '' @ message))
         (case error_status message of
            (statusCode, errorMessage) \<Rightarrow>
              send \<lparr>status = statusCode, headers = [],
                    payload = Json ([(''error'', errorMessage)]
                                    @ (if node_env env = Some ''development''
                                       then [(''details'', message)] else [])
                                    @ [(''timestamp'', now env)])\<rparr>)"

text \<open>Lines 214 to 223: the \<^verbatim>\<open>finally\<close> block.\<close>

definition convert_finally :: "env \<Rightarrow> unit io" where
  "convert_finally env =
     bind get_page (\<lambda>pg.
       case pg of
         None \<Rightarrow> ret ()
       | Some p \<Rightarrow>
           try_catch (await (Close p) (close_result env))
                     (\<lambda>closeError. log (''Error closing page: '' @ closeError)))"

text \<open>Lines 105 to 224: the handler.\<close>

definition convert :: "env \<Rightarrow> (string \<rightharpoonup> jsval) \<Rightarrow> unit io" where
  "convert env body =
     function_body
       (seq (set_page None)
            (try_finally
               (try_catch (convert_try env body) (convert_catch env))
               (convert_finally env)))"

text \<open>A run starts with the global as the server holds it and nothing done yet.\<close>

definition start :: "browser_handle option \<Rightarrow> state" where
  "start b = \<lparr>browser = b, page = None, trace = []\<rparr>"

text \<open>
  What a trace shows: the responses sent, the errors of the calls that failed (the close
  of the page apart), the waits, the captures, the header objects given to
  \<^verbatim>\<open>res.set\<close>, the closes, the pages created, the launches.
\<close>

definition sent :: "event list \<Rightarrow> response list" where
  "sent t = concat (map (\<lambda>e. case e of Sent r \<Rightarrow> [r] | _ \<Rightarrow> []) t)"

definition is_close :: "call \<Rightarrow> bool" where
  "is_close c = (case c of Close _ \<Rightarrow> True | _ \<Rightarrow> False)"

definition failures :: "event list \<Rightarrow> string list" where
  "failures t =
     concat (map (\<lambda>e. case e of
                          Called c (Rejected m) \<Rightarrow> (if is_close c then [] else [m])
                        | _ \<Rightarrow> []) t)"

datatype wait = NoWait | ForSelector string jsnumber | ForMillis jsnumber

definition waits :: "event list \<Rightarrow> wait list" where
  "waits t =
     concat (map (\<lambda>e. case e of
                          Called (WaitForSelector _ sel bound) _ \<Rightarrow> [ForSelector sel bound]
                        | Called (WaitForTimeout _ ms) _ \<Rightarrow> [ForMillis ms]
                        | _ \<Rightarrow> []) t)"

definition captures :: "event list \<Rightarrow> screenshot_options list" where
  "captures t =
     concat (map (\<lambda>e. case e of Called (Screenshot _ opts) _ \<Rightarrow> [opts] | _ \<Rightarrow> []) t)"

definition header_sets :: "event list \<Rightarrow> (string \<times> string) list list" where
  "header_sets t =
     concat (map (\<lambda>e. case e of Called (SetHeaders hs) _ \<Rightarrow> [hs] | _ \<Rightarrow> []) t)"

definition closes :: "event list \<Rightarrow> (page_handle \<times> outcome) list" where
  "closes t =
     concat (map (\<lambda>e. case e of Called (Close p) out \<Rightarrow> [(p, out)] | _ \<Rightarrow> []) t)"

definition created :: "event list \<Rightarrow> browser_handle list" where
  "created t =
     concat (map (\<lambda>e. case e of Called (NewPage h) Resolved \<Rightarrow> [h] | _ \<Rightarrow> []) t)"

definition launches :: "event list \<Rightarrow> outcome list" where
  "launches t =
     concat (map (\<lambda>e. case e of Called Launch out \<Rightarrow> [out] | _ \<Rightarrow> []) t)"

section \<open>An environment for the examples\<close>

text \<open>
  The examples run the handlers in an environment in which every call resolves. Its
  conversions are JavaScript's on the arguments the examples give them and are not
  meant beyond those: the string of a number for the integers below \<open>10 ^ 21\<close> in
  absolute value, the infinities and \<open>NaN\<close>; \<^verbatim>\<open>parseInt\<close> for the ASCII strings whose
  digits are at most fifteen; the number of a string for the empty string and for the
  strings of at most fifteen decimal digits.
\<close>

definition digit_char :: "nat \<Rightarrow> char" where
  "digit_char d = char_of (48 + d)"

fun show_nat :: "nat \<Rightarrow> string" where
  "show_nat n = (if n < 10 then [digit_char n] else show_nat (n div 10) @ [digit_char (n mod 10)])"

definition show_int :: "int \<Rightarrow> string" where
  "show_int i = (if i < 0 then CHR ''-'' # show_nat (nat (- i)) else show_nat (nat i))"

definition integer_toString :: "jsnumber \<Rightarrow> string" where
  "integer_toString n =
     (case n of
        NotANumber \<Rightarrow> ''NaN''
      | Fin q \<Rightarrow> show_int \<lfloor>q\<rfloor>
      | PosInf \<Rightarrow> ''Infinity''
      | NegInf \<Rightarrow> ''-Infinity'')"

text \<open>The ASCII members of the white space and line terminator classes.\<close>

definition is_ws :: "char \<Rightarrow> bool" where
  "is_ws c = (c \<in> set [CHR 0x09, CHR 0x0A, CHR 0x0B, CHR 0x0C, CHR 0x0D, CHR '' ''])"

text \<open>The value of a digit character in radixes up to 16, \<open>None\<close> for any other character.\<close>

definition digit_val :: "char \<Rightarrow> nat option" where
  "digit_val c =
     (let k = (of_char c :: nat) in
      if 48 \<le> k \<and> k \<le> 57 then Some (k - 48)
      else if 97 \<le> k \<and> k \<le> 102 then Some (k - 87)
      else if 65 \<le> k \<and> k \<le> 70 then Some (k - 55)
      else None)"

definition is_digit :: "nat \<Rightarrow> char \<Rightarrow> bool" where
  "is_digit radix c = (case digit_val c of None \<Rightarrow> False | Some d \<Rightarrow> d < radix)"

definition radix_val :: "nat \<Rightarrow> string \<Rightarrow> nat" where
  "radix_val radix s = foldl (\<lambda>a c. a * radix + (case digit_val c of None \<Rightarrow> 0 | Some d \<Rightarrow> d)) 0 s"

text \<open>
  \<^verbatim>\<open>parseInt(string)\<close> with no radix argument: skip leading white space, read a
  sign, read \<^verbatim>\<open>0x\<close>/\<^verbatim>\<open>0X\<close> as the hexadecimal prefix, take the longest run of
  digits and ignore whatever follows; no digit gives \<open>NaN\<close>.
\<close>

definition ascii_parseInt :: "string \<Rightarrow> jsnumber" where
  "ascii_parseInt str =
     (let s = dropWhile is_ws str;
          neg = (s \<noteq> [] \<and> hd s = CHR ''-'');
          s1 = (if s \<noteq> [] \<and> (hd s = CHR ''-'' \<or> hd s = CHR ''+'') then tl s else s);
          hex = (take 2 s1 = ''0x'' \<or> take 2 s1 = ''0X'');
          radix = (if hex then 16 else 10);
          s2 = (if hex then drop 2 s1 else s1);
          z = takeWhile (is_digit radix) s2
      in if z = [] then NotANumber
         else Fin ((if neg then - 1 else 1) * of_nat (radix_val radix z)))"

definition digits_toNumber :: "string \<Rightarrow> jsnumber" where
  "digits_toNumber s =
     (if list_all (is_digit 10) s then Fin (of_nat (radix_val 10 s)) else NotANumber)"

definition all_resolve :: env where
  "all_resolve =
     \<lparr>launch_result = Inr 1, newPage_result = Inr 7,
      setViewportSize_result = Inr (), addStyleTag_result = Inr (),
      setContent_result = Inr (), evaluate_result = Inr (),
      waitForSelector_result = Inr (), waitForTimeout_result = Inr (),
      screenshot_result = Inr [137, 80, 78, 71], setHeaders_result = Inr (),
      close_result = Inr (),
      isConnected = (\<lambda>_. True), now = ''2024-01-01T00:00:00.000Z'', node_env = None,
      number_toString = integer_toString, string_parseInt = ascii_parseInt,
      string_toNumber = digits_toNumber\<rparr>"

section \<open>The wait as the specification words it\<close>

text \<open>
  The specification's three cases, in its order: a string prefixed with the marker is a
  selector (the remainder), bounded by the timeout; otherwise a value that parses as a
  number is a pause of that many milliseconds; otherwise there is no wait.
\<close>

definition spec_waitFor :: "env \<Rightarrow> jsval \<Rightarrow> jsval \<Rightarrow> wait" where
  "spec_waitFor env waitFor timeout =
     (if is_string waitFor \<and> prefix ''selector:'' (to_string env waitFor)
      then ForSelector (drop (length ''selector:'') (to_string env waitFor)) (parseInt env timeout)
      else if \<not> isNaN (parseInt env waitFor) then ForMillis (parseInt env waitFor)
      else NoWait)"

definition wait_list :: "wait \<Rightarrow> wait list" where
  "wait_list w = (case w of NoWait \<Rightarrow> [] | _ \<Rightarrow> [w])"

section \<open>Interleaved calls of initBrowser\<close>

text \<open>
  An \<^verbatim>\<open>async\<close> function runs without interruption up to an \<^verbatim>\<open>await\<close> and is
  resumed when the awaited promise settles; other callers run in between. initBrowser has
  one \<^verbatim>\<open>await\<close>, on line 45. \<open>initBrowser_enter\<close> is the function up to it,
  \<open>initBrowser_resume\<close> the function from it.
\<close>

datatype 'a coroutine = Done 'a | Suspended

definition initBrowser_enter :: "state \<Rightarrow> browser_handle option coroutine \<times> state" where
  "initBrowser_enter s =
     (if browser s = None
      then (Suspended, s\<lparr>trace := trace s @ [Logged ''Launching browser...'']\<rparr>)
      else (Done (browser s), s))"

definition initBrowser_resume ::
  "string + browser_handle \<Rightarrow> state \<Rightarrow> (abrupt + browser_handle option) \<times> state" where
  "initBrowser_resume r s =
     (case r of
        Inr h \<Rightarrow>
          (let s1 = s\<lparr>browser := Some h,
                       trace := trace s @ [Called Launch Resolved, Logged ''Browser launched successfully'']\<rparr>
           in (Inr (browser s1), s1))
      | Inl m \<Rightarrow>
          (Inl (Throw m),
           s\<lparr>trace := trace s @ [Called Launch (Rejected m), Logged (''Failed to launch browser: '' @ m)]\<rparr>))"

text \<open>
  The server with callers of initBrowser in flight: the callers suspended at the
  \<^verbatim>\<open>await\<close>, and what each finished caller got.
\<close>

record server =
  global :: state
  suspended :: "nat list"
  finished :: "(nat \<times> (abrupt + browser_handle option)) list"

datatype action = Enter nat | Settle nat "string + browser_handle"

definition step :: "server \<Rightarrow> action \<Rightarrow> server" where
  "step sv a =
     (case a of
        Enter c \<Rightarrow>
          (case initBrowser_enter (global sv) of
             (Done b, s') \<Rightarrow> sv\<lparr>global := s', finished := finished sv @ [(c, Inr b)]\<rparr>
           | (Suspended, s') \<Rightarrow> sv\<lparr>global := s', suspended := suspended sv @ [c]\<rparr>)
      | Settle c r \<Rightarrow>
          (if c \<in> set (suspended sv)
           then (case initBrowser_resume r (global sv) of
                   (res, s') \<Rightarrow>
                     sv\<lparr>global := s',
                        suspended := remove1 c (suspended sv),
                        finished := finished sv @ [(c, res)]\<rparr>)
           else sv))"

definition run :: "server \<Rightarrow> action list \<Rightarrow> server" where
  "run sv as = foldl step sv as"

definition boot :: server where
  "boot = \<lparr>global = start None, suspended = [], finished = []\<rparr>"

section \<open>Reasoning about statements\<close>

text \<open>
  \<open>triple P m N E\<close>: from a state satisfying \<open>P\<close>, the statement \<open>m\<close> ends in a state
  satisfying \<open>N\<close> when it completes normally and \<open>E\<close> when it completes abruptly.
\<close>

definition triple ::
  "(state \<Rightarrow> bool) \<Rightarrow> 'a io \<Rightarrow> ('a \<Rightarrow> state \<Rightarrow> bool) \<Rightarrow> (abrupt \<Rightarrow> state \<Rightarrow> bool) \<Rightarrow> bool" where
  "triple P m N E = (\<forall>s. P s \<longrightarrow> (case m s of (Inl a, s') \<Rightarrow> E a s' | (Inr x, s') \<Rightarrow> N x s'))"

section \<open>Numerals and strings\<close>

declare show_nat.simps [simp del]

lemma digit_val_digit_char: "d < 10 \<Longrightarrow> digit_val (digit_char d) = Some d"
  by (simp add: digit_val_def digit_char_def Let_def)

lemma is_digit_digit_char: "d < 10 \<Longrightarrow> is_digit 10 (digit_char d)"
  by (simp add: is_digit_def digit_val_digit_char)

lemma of_char_digit_char: "d < 10 \<Longrightarrow> (of_char (digit_char d) :: nat) = 48 + d"
  by (simp add: digit_char_def)

lemma digit_char_plain:
  assumes "d < 10"
  shows "\<not> is_ws (digit_char d)" "digit_char d \<noteq> CHR ''-''" "digit_char d \<noteq> CHR ''+''"
    "digit_char d \<noteq> CHR ''x''" "digit_char d \<noteq> CHR ''X''"
proof -
  have k: "(of_char (digit_char d) :: nat) = 48 + d" by (rule of_char_digit_char [OF assms])
  have "(of_char (digit_char d) :: nat) \<notin> {9, 10, 11, 12, 13, 32}" using assms k by auto
  then show "\<not> is_ws (digit_char d)" by (auto simp: is_ws_def)
  show "digit_char d \<noteq> CHR ''-''" using assms k by auto
  show "digit_char d \<noteq> CHR ''+''" using assms k by auto
  show "digit_char d \<noteq> CHR ''x''" using assms k by auto
  show "digit_char d \<noteq> CHR ''X''" using assms k by auto
qed

lemma show_nat_digits: "c \<in> set (show_nat n) \<Longrightarrow> \<exists>d<10. c = digit_char d"
proof (induction n arbitrary: c rule: show_nat.induct)
  case (1 n)
  show ?case
  proof (cases "n < 10")
    case True
    with "1.prems" show ?thesis by (auto simp: show_nat.simps [of n])
  next
    case False
    with "1.prems" have "c \<in> set (show_nat (n div 10)) \<or> c = digit_char (n mod 10)"
      by (auto simp: show_nat.simps [of n])
    then show ?thesis
    proof
      assume "c \<in> set (show_nat (n div 10))"
      with False "1.IH" show ?thesis by blast
    next
      assume "c = digit_char (n mod 10)"
      then show ?thesis by (intro exI [of _ "n mod 10"]) simp
    qed
  qed
qed

lemma show_nat_nonempty: "show_nat n \<noteq> []"
  by (subst show_nat.simps) simp

lemma radix_val_snoc:
  "radix_val r (s @ [c]) = radix_val r s * r + (case digit_val c of None \<Rightarrow> 0 | Some d \<Rightarrow> d)"
  by (simp add: radix_val_def)

text \<open>Reading the decimal numeral of a number gives the number back.\<close>

lemma radix_val_show_nat: "radix_val 10 (show_nat n) = n"
proof (induction n rule: show_nat.induct)
  case (1 n)
  show ?case
  proof (cases "n < 10")
    case True
    then show ?thesis by (simp add: show_nat.simps [of n] radix_val_def digit_val_digit_char)
  next
    case False
    then have "radix_val 10 (show_nat n) = radix_val 10 (show_nat (n div 10)) * 10 + n mod 10"
      by (subst show_nat.simps) (simp add: radix_val_snoc digit_val_digit_char)
    with False "1.IH" show ?thesis by simp
  qed
qed

lemma takeWhile_show_nat: "takeWhile (is_digit 10) (show_nat n) = show_nat n"
  by (rule takeWhile_eq_all_conv [THEN iffD2]) (auto dest!: show_nat_digits simp: is_digit_digit_char)

lemma show_nat_hd: "\<exists>d<10. hd (show_nat n) = digit_char d"
  using show_nat_digits [of "hd (show_nat n)" n] show_nat_nonempty [of n] by simp

lemma show_nat_no_prefix: "take 2 (show_nat n) \<noteq> ''0x''" "take 2 (show_nat n) \<noteq> ''0X''"
proof -
  have no: "c \<notin> set (take 2 (show_nat n))" if "\<And>d. d < 10 \<Longrightarrow> digit_char d \<noteq> c" for c
  proof
    assume "c \<in> set (take 2 (show_nat n))"
    then have "c \<in> set (show_nat n)" by (rule in_set_takeD)
    then obtain d where "d < 10" "c = digit_char d" using show_nat_digits by blast
    with that show False by blast
  qed
  have "CHR ''x'' \<notin> set (take 2 (show_nat n))" by (rule no) (rule digit_char_plain(4))
  then show "take 2 (show_nat n) \<noteq> ''0x''" by auto
  have "CHR ''X'' \<notin> set (take 2 (show_nat n))" by (rule no) (rule digit_char_plain(5))
  then show "take 2 (show_nat n) \<noteq> ''0X''" by auto
qed

lemma ascii_parseInt_show_nat: "ascii_parseInt (show_nat n) = Fin (of_nat n)"
proof -
  obtain d where d: "d < 10" "hd (show_nat n) = digit_char d" using show_nat_hd by blast
  have ne: "show_nat n \<noteq> []" by (rule show_nat_nonempty)
  have ws: "dropWhile is_ws (show_nat n) = show_nat n"
    using ne d digit_char_plain(1) [OF d(1)] by (cases "show_nat n") simp_all
  show ?thesis
    using ne d digit_char_plain [OF d(1)] show_nat_no_prefix [of n]
    by (simp add: ascii_parseInt_def ws Let_def takeWhile_show_nat radix_val_show_nat)
qed

lemma ascii_parseInt_minus_show_nat: "ascii_parseInt (CHR ''-'' # show_nat n) = Fin (- of_nat n)"
  using show_nat_nonempty [of n] show_nat_no_prefix [of n]
  by (simp add: ascii_parseInt_def is_ws_def Let_def takeWhile_show_nat radix_val_show_nat)

text \<open>
  With the conversions of the examples, \<^verbatim>\<open>parseInt\<close> of an integral number is the
  number, and \<^verbatim>\<open>parseInt\<close> of an infinity is \<open>NaN\<close>.
\<close>

lemma parseInt_integer:
  assumes "number_toString env = integer_toString" and "string_parseInt env = ascii_parseInt"
  shows "parseInt env (JNum (Fin (of_int n))) = Fin (of_int n)"
proof (cases "n < 0")
  case True
  then have "(of_nat (nat (- n)) :: rat) = - of_int n"
    by (metis of_int_of_nat_eq of_int_minus nat_0_le neg_0_le_iff_le less_imp_le)
  with True show ?thesis
    by (simp add: parseInt_def to_string_def assms integer_toString_def show_int_def
          ascii_parseInt_minus_show_nat)
next
  case False
  then have "(of_nat (nat n) :: rat) = of_int n"
    by (metis of_int_of_nat_eq nat_0_le not_less)
  with False show ?thesis
    by (simp add: parseInt_def to_string_def assms integer_toString_def show_int_def
          ascii_parseInt_show_nat)
qed

lemma parseInt_numeral:
  assumes "number_toString env = integer_toString" and "string_parseInt env = ascii_parseInt"
  shows "parseInt env (JNum (Fin (numeral k))) = Fin (numeral k)"
  using parseInt_integer [OF assms, of "numeral k"] by simp

lemma parseInt_infinity:
  assumes "number_toString env = integer_toString" and "string_parseInt env = ascii_parseInt"
  shows "parseInt env (JNum PosInf) = NotANumber"
  by (simp add: parseInt_def to_string_def assms integer_toString_def ascii_parseInt_def
        is_ws_def is_digit_def digit_val_def Let_def)

text \<open>
  The comparison of a number is the comparison of its value, whatever the conversions of
  the environment are; an infinity is above every bound, \<open>NaN\<close> above none.
\<close>

lemma js_gt_number:
  "js_gt env (JNum (Fin q)) k = (of_int k < q)"
  "js_gt env (JNum PosInf) k"
  "\<not> js_gt env (JNum NegInf) k"
  "\<not> js_gt env (JNum NotANumber) k"
  by (simp_all add: js_gt_def to_number_def)

text \<open>A string is compared by the number the engine converts it to.\<close>

lemma js_gt_string:
  "js_gt env (JStr s) k = js_gt env (JNum (string_toNumber env s)) k"
  by (simp add: js_gt_def to_number_def)

lemma str_includes_prefix: "str_includes (pat @ r) pat"
  by (cases pat; cases r) simp_all

lemma str_replace_prefix: "pat \<noteq> [] \<Longrightarrow> str_replace (pat @ r) pat rep = rep @ r"
  by (cases pat) simp_all

text \<open>\<open>str_includes\<close> is the occurrence of the pattern somewhere in the string.\<close>

lemma str_includes_iff: "str_includes s pat \<longleftrightarrow> (\<exists>pre post. s = pre @ pat @ post)"
proof (induction s)
  case Nil
  then show ?case by auto
next
  case (Cons c cs)
  show ?case
  proof
    assume "str_includes (c # cs) pat"
    then consider "prefix pat (c # cs)" | "str_includes cs pat" by auto
    then show "\<exists>pre post. c # cs = pre @ pat @ post"
    proof cases
      case 1
      then obtain post where "c # cs = pat @ post" by (auto simp: prefix_def)
      then have "c # cs = [] @ pat @ post" by simp
      then show ?thesis by blast
    next
      case 2
      with Cons.IH obtain pre post where "cs = pre @ pat @ post" by blast
      then have "c # cs = (c # pre) @ pat @ post" by simp
      then show ?thesis by blast
    qed
  next
    assume "\<exists>pre post. c # cs = pre @ pat @ post"
    then obtain pre post where eq: "c # cs = pre @ pat @ post" by blast
    show "str_includes (c # cs) pat"
    proof (cases pre)
      case Nil
      with eq have "prefix pat (c # cs)" by (simp add: prefix_def)
      then show ?thesis by simp
    next
      case (Cons a pre')
      with eq have "cs = pre' @ pat @ post" by simp
      with Cons.IH have "str_includes cs pat" by blast
      then show ?thesis by simp
    qed
  qed
qed

section \<open>initBrowser: launch failure, reuse, interleaving\<close>

lemmas io_defs = ret_def throw_def return_stmt_def bind_def seq_def if_stmt_def try_catch_def
  try_finally_def function_body_def emit_def log_def send_def await_def get_browser_def
  set_browser_def get_page_def set_page_def

text \<open>
  A call of initBrowser that nothing interleaves with is the function up to its
  \<^verbatim>\<open>await\<close> followed at once by the function from it.
\<close>

lemma initBrowser_enter_resume:
  "initBrowser env s =
     (case initBrowser_enter s of
        (Done b, s') \<Rightarrow> (Inr b, s')
      | (Suspended, s') \<Rightarrow> initBrowser_resume (launch_result env) s')"
  by (simp add: initBrowser_def initBrowser_enter_def initBrowser_resume_def io_defs Let_def
           split: sum.splits)

text \<open>A caller that finds a handle held gets that handle, and nothing is launched.\<close>

lemma initBrowser_reuses_handle:
  "browser s = Some h \<Longrightarrow> initBrowser env s = (Inr (Some h), s)"
  by (simp add: initBrowser_def io_defs)

text \<open>
  Callers that do not overlap share one launch: the second caller enters after the
  first launch has resolved, finds the handle and is handed it.
\<close>

lemma initBrowser_in_turn:
  "launches (trace (global (run boot [Enter 0, Settle 0 (Inr 10), Enter 1]))) = [Resolved]
   \<and> finished (run boot [Enter 0, Settle 0 (Inr 10), Enter 1])
     = [(0, Inr (Some 10)), (1, Inr (Some 10))]"
  by (simp add: run_def boot_def step_def start_def initBrowser_enter_def initBrowser_resume_def
        launches_def Let_def)

text \<open>
  C1. Claimed: for every interleaving of concurrent calls of initBrowser at most one
  launch is performed, and at most one browser process is live. The code tests the
  global before the \<^verbatim>\<open>await\<close> and assigns it after: two callers that both enter
  before either launch has settled both launch. Below, callers 0 and 1 enter in turn,
  then the two launches resolve with the handles 10 and 11: two launches have resolved,
  each caller has been handed a browser of its own, and the global holds the second
  one only, so that the first is never closed.
\<close>

theorem initBrowser_double_launch:
  "launches (trace (global (run boot [Enter 0, Enter 1, Settle 0 (Inr 10), Settle 1 (Inr 11)])))
     = [Resolved, Resolved]
   \<and> finished (run boot [Enter 0, Enter 1, Settle 0 (Inr 10), Settle 1 (Inr 11)])
     = [(0, Inr (Some 10)), (1, Inr (Some 11))]
   \<and> browser (global (run boot [Enter 0, Enter 1, Settle 0 (Inr 10), Settle 1 (Inr 11)])) = Some 11"
  by (simp add: run_def boot_def step_def start_def initBrowser_enter_def initBrowser_resume_def
        launches_def Let_def)

text \<open>
  C8. If the launch fails inside initBrowser, the error propagates to the caller and the
  global stays unset: the call throws the launch's error, the global is still
  \<^verbatim>\<open>null\<close>, and a following call of initBrowser, whatever the engine does then,
  launches again; when that launch resolves, its handle is returned and held.
\<close>

theorem initBrowser_launch_failure:
  assumes "browser s = None" and "launch_result env = Inl m"
  shows "\<exists>s'. initBrowser env s = (Inl (Throw m), s') \<and> browser s' = None \<and>
           launches (trace s') = launches (trace s) @ [Rejected m] \<and>
           (\<forall>env'. \<exists>r' s''. initBrowser env' s' = (r', s'') \<and>
               launches (trace s'') =
                 launches (trace s') @ [case launch_result env' of Inl m' \<Rightarrow> Rejected m' | Inr h \<Rightarrow> Resolved] \<and>
               (\<forall>h. launch_result env' = Inr h \<longrightarrow> r' = Inr (Some h) \<and> browser s'' = Some h))"
  using assms
  by (auto simp add: initBrowser_def launches_def io_defs split: sum.splits)

theorem initBrowser_launch_failure_witness:
  "browser (start None) = None \<and>
   launch_result (all_resolve\<lparr>launch_result := Inl ''spawn failed''\<rparr>) = Inl ''spawn failed'' \<and>
   (\<exists>s'. initBrowser (all_resolve\<lparr>launch_result := Inl ''spawn failed''\<rparr>) (start None)
            = (Inl (Throw ''spawn failed''), s') \<and> browser s' = None \<and>
          launches (trace s') = [Rejected ''spawn failed''] \<and>
          (\<exists>s''. initBrowser all_resolve s' = (Inr (Some 1), s'') \<and> browser s'' = Some 1 \<and>
                 launches (trace s'') = [Rejected ''spawn failed'', Resolved]))"
proof -
  have b: "browser (start None) = None" by (simp add: start_def)
  have l: "launch_result (all_resolve\<lparr>launch_result := Inl ''spawn failed''\<rparr>) = Inl ''spawn failed''"
    by simp
  have r: "launch_result all_resolve = Inr 1" by (simp add: all_resolve_def)
  have t: "launches (trace (start None)) = []" by (simp add: start_def launches_def)
  from initBrowser_launch_failure [OF b l] obtain s' where
    s': "initBrowser (all_resolve\<lparr>launch_result := Inl ''spawn failed''\<rparr>) (start None)
           = (Inl (Throw ''spawn failed''), s')"
      "browser s' = None"
      "launches (trace s') = launches (trace (start None)) @ [Rejected ''spawn failed'']"
    and again: "\<forall>env'. \<exists>r' s''. initBrowser env' s' = (r', s'') \<and>
               launches (trace s'') =
                 launches (trace s') @ [case launch_result env' of Inl m' \<Rightarrow> Rejected m' | Inr h \<Rightarrow> Resolved] \<and>
               (\<forall>h. launch_result env' = Inr h \<longrightarrow> r' = Inr (Some h) \<and> browser s'' = Some h)"
    by blast
  from again [rule_format, of all_resolve] r obtain s'' where
    "initBrowser all_resolve s' = (Inr (Some 1), s'')" "browser s'' = Some 1"
    "launches (trace s'') = launches (trace s') @ [Resolved]"
    by auto
  with s' t b l show ?thesis by auto
qed

section \<open>GET /health\<close>

lemma isHealthy_iff: "isHealthy env bi = (\<exists>h. bi = Some h \<and> isConnected env h)"
  by (cases bi) (simp_all add: isHealthy_def)

lemma sent_simps [simp]:
  "sent [] = []"
  "sent (t @ u) = sent t @ sent u"
  "sent (Called c out # t) = sent t"
  "sent (Logged x # t) = sent t"
  "sent (Sent r # t) = r # sent t"
  by (simp_all add: sent_def)

text \<open>
  C7. The health check answers once and never throws. It reports \<^verbatim>\<open>healthy\<close> and
  \<^verbatim>\<open>connected\<close>, with status 200, exactly when the browser handle exists and reports
  itself connected; with a handle that is not connected it reports \<^verbatim>\<open>unhealthy\<close>
  (and \<^verbatim>\<open>disconnected\<close>); when no handle could be had, initBrowser having thrown, it
  answers 500 with \<^verbatim>\<open>unhealthy\<close> and the error. Every answer carries the timestamp.
\<close>

theorem health_reports:
  "\<exists>s' r. health env (start b) = (Inr (), s') \<and> sent (trace s') = [r] \<and>
      (if \<exists>h. browser s' = Some h \<and> isConnected env h
       then r = \<lparr>status = 200, headers = [],
                 payload = Json [(''status'', ''healthy''), (''timestamp'', now env),
                                 (''browser'', ''connected'')]\<rparr>
       else if browser s' \<noteq> None
       then r = \<lparr>status = 200, headers = [],
                 payload = Json [(''status'', ''unhealthy''), (''timestamp'', now env),
                                 (''browser'', ''disconnected'')]\<rparr>
       else \<exists>m. launch_result env = Inl m \<and>
              r = \<lparr>status = 500, headers = [],
                    payload = Json [(''status'', ''unhealthy''), (''error'', m),
                                    (''timestamp'', now env)]\<rparr>)"
  by (cases b; cases "launch_result env")
     (simp_all add: health_def initBrowser_def isHealthy_iff start_def io_defs Let_def)

theorem health_reports_witness:
  "\<exists>s'. health all_resolve (start None) = (Inr (), s') \<and> browser s' = Some 1 \<and>
      isConnected all_resolve 1 \<and>
      sent (trace s') =
        [\<lparr>status = 200, headers = [],
          payload = Json [(''status'', ''healthy''), (''timestamp'', now all_resolve),
                          (''browser'', ''connected'')]\<rparr>]"
  using health_reports [of all_resolve None]
  by (auto simp add: all_resolve_def health_def initBrowser_def isHealthy_iff start_def io_defs Let_def)

section \<open>POST /convert: validation\<close>

lemma convert_falsy_html:
  assumes "\<not> truthy (field body ''html'' JUndefined)"
  shows "convert env body (start b) =
           (Inr (), \<lparr>browser = b, page = None,
                     trace = [Sent \<lparr>status = 400, headers = [],
                                    payload = Json [(''error'', ''HTML content is required''),
                                                    (''message'', ''Please provide HTML content in the request body'')]\<rparr>]\<rparr>)"
  using assms
  by (simp add: convert_def convert_try_def convert_finally_def start_def io_defs Let_def)

text \<open>
  C3. For every conversion request whose html field is absent or the empty string, the
  handler answers 400 with the validation error. The whole run is that one response: no
  call of the browser engine is made, initBrowser does not run (the global is as it
  was), and no page is held.
\<close>

theorem convert_missing_html:
  assumes "body ''html'' = None \<or> body ''html'' = Some (JStr [])"
  shows "convert env body (start b) =
           (Inr (), \<lparr>browser = b, page = None,
                     trace = [Sent \<lparr>status = 400, headers = [],
                                    payload = Json [(''error'', ''HTML content is required''),
                                                    (''message'', ''Please provide HTML content in the request body'')]\<rparr>]\<rparr>)"
proof -
  from assms have "\<not> truthy (field body ''html'' JUndefined)"
    by (auto simp: field_def)
  then show ?thesis by (rule convert_falsy_html)
qed

theorem convert_missing_html_witness:
  "(Map.empty :: string \<rightharpoonup> jsval) ''html'' = None \<and>
   convert all_resolve Map.empty (start None) =
     (Inr (), \<lparr>browser = None, page = None,
               trace = [Sent \<lparr>status = 400, headers = [],
                              payload = Json [(''error'', ''HTML content is required''),
                                              (''message'', ''Please provide HTML content in the request body'')]\<rparr>]\<rparr>)
   \<and> [''html'' \<mapsto> JStr [], ''width'' \<mapsto> JNum (Fin 800)] ''html'' = Some (JStr [])
   \<and> convert all_resolve [''html'' \<mapsto> JStr [], ''width'' \<mapsto> JNum (Fin 800)] (start (Some 3)) =
     (Inr (), \<lparr>browser = Some 3, page = None,
               trace = [Sent \<lparr>status = 400, headers = [],
                              payload = Json [(''error'', ''HTML content is required''),
                                              (''message'', ''Please provide HTML content in the request body'')]\<rparr>]\<rparr>)"
  using convert_missing_html [of Map.empty all_resolve None]
    convert_missing_html [of "[''html'' \<mapsto> JStr [], ''width'' \<mapsto> JNum (Fin 800)]" all_resolve "Some 3"]
  by simp

text \<open>
  C4. For every conversion request whose width is greater than 3840 or whose height is
  greater than 2160, whatever its other fields, the handler answers 400 with a validation
  error, and the whole run is that one response: the browser is not obtained and no page
  is created. Greater is the comparison of line 130: a number is compared by its value
  and an infinity is above the bound (lemma \<open>js_gt_number\<close>); any other value is
  compared by the number the JavaScript engine converts it to. The error is the one
  about the dimensions when html is given, the one about html when it is not.
\<close>

theorem convert_oversized:
  assumes "js_gt env (field body ''width'' (JNum (Fin 1280))) 3840
           \<or> js_gt env (field body ''height'' (JNum (Fin 720))) 2160"
  shows "convert env body (start b) =
           (Inr (), \<lparr>browser = b, page = None,
                     trace = [Sent \<lparr>status = 400, headers = [],
                                    payload = Json (if truthy (field body ''html'' JUndefined)
                                                    then [(''error'', ''Dimensions too large''),
                                                          (''message'', ''Maximum dimensions are 3840x2160'')]
                                                    else [(''error'', ''HTML content is required''),
                                                          (''message'', ''Please provide HTML content in the request body'')])\<rparr>]\<rparr>)"
proof (cases "truthy (field body ''html'' JUndefined)")
  case False
  then show ?thesis by (simp add: convert_falsy_html)
next
  case True
  with assms show ?thesis
    by (simp add: convert_def convert_try_def convert_finally_def start_def io_defs Let_def)
qed

theorem convert_oversized_witness:
  "js_gt all_resolve
     (field [''html'' \<mapsto> JStr ''<h1>x</h1>'', ''width'' \<mapsto> JNum (Fin 5000), ''height'' \<mapsto> JNum (Fin 600)]
        ''width'' (JNum (Fin 1280))) 3840
   \<and> convert all_resolve
       [''html'' \<mapsto> JStr ''<h1>x</h1>'', ''width'' \<mapsto> JNum (Fin 5000), ''height'' \<mapsto> JNum (Fin 600)]
       (start None)
     = (Inr (), \<lparr>browser = None, page = None,
                  trace = [Sent \<lparr>status = 400, headers = [],
                                 payload = Json [(''error'', ''Dimensions too large''),
                                                 (''message'', ''Maximum dimensions are 3840x2160'')]\<rparr>]\<rparr>)
   \<and> js_gt all_resolve
       (field [''width'' \<mapsto> JNum (Fin 800), ''height'' \<mapsto> JNum (Fin 3000)]
          ''height'' (JNum (Fin 720))) 2160
   \<and> convert all_resolve
       [''width'' \<mapsto> JNum (Fin 800), ''height'' \<mapsto> JNum (Fin 3000)]
       (start (Some 3))
     = (Inr (), \<lparr>browser = Some 3, page = None,
                  trace = [Sent \<lparr>status = 400, headers = [],
                                 payload = Json [(''error'', ''HTML content is required''),
                                                 (''message'', ''Please provide HTML content in the request body'')]\<rparr>]\<rparr>)"
proof -
  have w: "js_gt all_resolve
     (field [''html'' \<mapsto> JStr ''<h1>x</h1>'', ''width'' \<mapsto> JNum (Fin 5000), ''height'' \<mapsto> JNum (Fin 600)]
        ''width'' (JNum (Fin 1280))) 3840"
    by (simp add: field_def js_gt_number)
  have h: "js_gt all_resolve
       (field [''width'' \<mapsto> JNum (Fin 800), ''height'' \<mapsto> JNum (Fin 3000)]
          ''height'' (JNum (Fin 720))) 2160"
    by (simp add: field_def js_gt_number)
  from convert_oversized [OF disjI1, OF w, of None] convert_oversized [OF disjI2, OF h, of "Some 3"] w h
  show ?thesis by (simp add: field_def)
qed

section \<open>Rules for statements\<close>

lemma tripleD:
  "triple P m N E \<Longrightarrow> P s \<Longrightarrow> m s = (r, s') \<Longrightarrow> (case r of Inl a \<Rightarrow> E a s' | Inr x \<Rightarrow> N x s')"
  by (auto simp: triple_def split: sum.splits)

lemma triple_false: "triple (\<lambda>s. False) m N E"
  by (simp add: triple_def)

lemma triple_weaken:
  "triple P m N E \<Longrightarrow> (\<And>x s. N x s \<Longrightarrow> N' x s) \<Longrightarrow> (\<And>a s. E a s \<Longrightarrow> E' a s) \<Longrightarrow>
   triple P m N' E'"
  unfolding triple_def by (fastforce split: sum.splits prod.splits)

lemma triple_ret: "(\<And>s. P s \<Longrightarrow> N x s) \<Longrightarrow> triple P (ret x) N E"
  by (simp add: triple_def ret_def)

lemma triple_throw: "(\<And>s. P s \<Longrightarrow> E (Throw m) s) \<Longrightarrow> triple P (throw m) N E"
  by (simp add: triple_def throw_def)

lemma triple_bind:
  "triple P m J E \<Longrightarrow> (\<And>x. triple (J x) (f x) N E) \<Longrightarrow> triple P (bind m f) N E"
  unfolding triple_def bind_def by (fastforce split: sum.splits prod.splits)

lemma triple_seq:
  "triple P m (\<lambda>_. J) E \<Longrightarrow> triple J k N E \<Longrightarrow> triple P (seq m k) N E"
  unfolding seq_def by (rule triple_bind)

text \<open>With an invariant: the statement before the rest keeps it.\<close>

lemma triple_bind_inv:
  "triple I m (\<lambda>_. I) E \<Longrightarrow> (\<And>x. triple I (f x) N E) \<Longrightarrow> triple I (bind m f) N E"
  by (rule triple_bind)

lemma triple_seq_inv:
  "triple I m (\<lambda>_. I) E \<Longrightarrow> triple I k N E \<Longrightarrow> triple I (seq m k) N E"
  by (rule triple_seq)

lemma triple_if:
  "(c \<Longrightarrow> triple P a N E) \<Longrightarrow> (\<not> c \<Longrightarrow> triple P b N E) \<Longrightarrow> triple P (if c then a else b) N E"
  by simp

lemma triple_if_stmt:
  "(c \<Longrightarrow> triple P m N E) \<Longrightarrow> (\<And>s. \<not> c \<Longrightarrow> P s \<Longrightarrow> N () s) \<Longrightarrow> triple P (if_stmt c m) N E"
  by (auto simp: if_stmt_def intro: triple_ret)

lemma triple_emit:
  "(\<And>s. P s \<Longrightarrow> N () (s\<lparr>trace := trace s @ [e]\<rparr>)) \<Longrightarrow> triple P (emit e) N E"
  by (simp add: triple_def emit_def)

lemma triple_log:
  "(\<And>s. P s \<Longrightarrow> N () (s\<lparr>trace := trace s @ [Logged m]\<rparr>)) \<Longrightarrow> triple P (log m) N E"
  unfolding log_def by (rule triple_emit)

lemma triple_send:
  "(\<And>s. P s \<Longrightarrow> N () (s\<lparr>trace := trace s @ [Sent r]\<rparr>)) \<Longrightarrow> triple P (send r) N E"
  unfolding send_def by (rule triple_emit)

lemma triple_await:
  "(\<And>s v. P s \<Longrightarrow> r = Inr v \<Longrightarrow> N v (s\<lparr>trace := trace s @ [Called c Resolved]\<rparr>)) \<Longrightarrow>
   (\<And>s m. P s \<Longrightarrow> r = Inl m \<Longrightarrow> E (Throw m) (s\<lparr>trace := trace s @ [Called c (Rejected m)]\<rparr>)) \<Longrightarrow>
   triple P (await c r) N E"
  by (cases r) (simp_all add: triple_def io_defs)

lemma triple_set_page:
  "(\<And>s. P s \<Longrightarrow> N () (s\<lparr>page := p\<rparr>)) \<Longrightarrow> triple P (set_page p) N E"
  by (simp add: triple_def set_page_def)

text \<open>The validation branches: a response, then \<^verbatim>\<open>return\<close>.\<close>

lemma triple_send_return:
  "(\<And>s. P s \<Longrightarrow> E Return (s\<lparr>trace := trace s @ [Sent r]\<rparr>)) \<Longrightarrow>
   triple P (seq (send r) return_stmt) N E"
  by (simp add: triple_def io_defs)

text \<open>The capture, the headers and the response that carries the image.\<close>

lemma triple_capture_send:
  "(\<And>s v. P s \<Longrightarrow> r = Inr v \<Longrightarrow> r2 = Inr () \<Longrightarrow>
      N () (s\<lparr>trace := trace s @ [Called c Resolved, Called (c2 v) Resolved, Sent (g v)]\<rparr>)) \<Longrightarrow>
   (\<And>s v m. P s \<Longrightarrow> r = Inr v \<Longrightarrow> r2 = Inl m \<Longrightarrow>
      E (Throw m) (s\<lparr>trace := trace s @ [Called c Resolved, Called (c2 v) (Rejected m)]\<rparr>)) \<Longrightarrow>
   (\<And>s m. P s \<Longrightarrow> r = Inl m \<Longrightarrow> E (Throw m) (s\<lparr>trace := trace s @ [Called c (Rejected m)]\<rparr>)) \<Longrightarrow>
   triple P (bind (await c r) (\<lambda>v. seq (await (c2 v) r2) (send (g v)))) N E"
  by (cases r; cases r2) (simp_all add: triple_def io_defs)

lemma triple_initBrowser:
  "(\<And>s h. P s \<Longrightarrow> browser s = Some h \<Longrightarrow> N (Some h) s) \<Longrightarrow>
   (\<And>s h. P s \<Longrightarrow> browser s = None \<Longrightarrow> launch_result env = Inr h \<Longrightarrow>
       N (Some h) (s\<lparr>browser := Some h,
                     trace := trace s @ [Logged ''Launching browser...'', Called Launch Resolved,
                                         Logged ''Browser launched successfully'']\<rparr>)) \<Longrightarrow>
   (\<And>s m. P s \<Longrightarrow> browser s = None \<Longrightarrow> launch_result env = Inl m \<Longrightarrow>
       E (Throw m) (s\<lparr>trace := trace s @ [Logged ''Launching browser...'', Called Launch (Rejected m),
                                            Logged (''Failed to launch browser: '' @ m)]\<rparr>)) \<Longrightarrow>
   triple P (initBrowser env) N E"
  by (auto simp: triple_def initBrowser_def io_defs split: sum.splits)

text \<open>The handle initBrowser returns is never \<^verbatim>\<open>null\<close>, so the page is asked of a browser.\<close>

lemma triple_bind_initBrowser:
  assumes "triple I (initBrowser env) (\<lambda>_. I) E"
    and "\<And>h. triple I (f (Some h)) N E"
  shows "triple I (bind (initBrowser env) f) N E"
proof -
  have "triple I (initBrowser env) (\<lambda>x s. x \<noteq> None \<and> I s) E"
    using assms(1)
    by (auto simp: triple_def initBrowser_def io_defs split: sum.splits option.splits if_splits)
  moreover have "triple (\<lambda>s. x \<noteq> None \<and> I s) (f x) N E" for x
    using assms(2) by (cases x) (simp_all add: triple_false)
  ultimately show ?thesis by (rule triple_bind)
qed

lemma triple_try_catch:
  "triple P m N (\<lambda>a s. case a of Throw e \<Rightarrow> H e s | Return \<Rightarrow> E Return s) \<Longrightarrow>
   (\<And>e. triple (H e) (h e) N E) \<Longrightarrow> triple P (try_catch m h) N E"
  unfolding triple_def try_catch_def
  by (fastforce split: sum.splits prod.splits abrupt.splits)

lemmas triple_steps = triple_seq_inv triple_if triple_if_stmt triple_await triple_capture_send
  triple_set_page triple_ret

lemma failures_simps [simp]:
  "failures [] = []"
  "failures (t @ u) = failures t @ failures u"
  "failures (Called c Resolved # t) = failures t"
  "failures (Called c (Rejected m) # t) = (if is_close c then failures t else m # failures t)"
  "failures (Logged x # t) = failures t"
  "failures (Sent r # t) = failures t"
  by (simp_all add: failures_def)

lemma captures_simps [simp]:
  "captures [] = []"
  "captures (t @ u) = captures t @ captures u"
  "captures (Called c out # t) = (case c of Screenshot p opts \<Rightarrow> opts # captures t | _ \<Rightarrow> captures t)"
  "captures (Logged x # t) = captures t"
  "captures (Sent r # t) = captures t"
  by (simp_all add: captures_def split: call.splits)

lemma closes_simps [simp]:
  "closes [] = []"
  "closes (t @ u) = closes t @ closes u"
  "closes (Called c out # t) = (case c of Close p \<Rightarrow> (p, out) # closes t | _ \<Rightarrow> closes t)"
  "closes (Logged x # t) = closes t"
  "closes (Sent r # t) = closes t"
  by (simp_all add: closes_def split: call.splits)

lemma created_simps [simp]:
  "created [] = []"
  "created (t @ u) = created t @ created u"
  "created (Called c (Rejected m) # t) = created t"
  "created (Called c Resolved # t) = (case c of NewPage h \<Rightarrow> h # created t | _ \<Rightarrow> created t)"
  "created (Logged x # t) = created t"
  "created (Sent r # t) = created t"
  by (simp_all add: created_def split: call.splits)

lemma waits_simps [simp]:
  "waits [] = []"
  "waits (t @ u) = waits t @ waits u"
  "waits (Called c out # t) =
     (case c of WaitForSelector p sel bound \<Rightarrow> ForSelector sel bound # waits t
              | WaitForTimeout p ms \<Rightarrow> ForMillis ms # waits t
              | _ \<Rightarrow> waits t)"
  "waits (Logged x # t) = waits t"
  "waits (Sent r # t) = waits t"
  by (simp_all add: waits_def split: call.splits)

lemma header_sets_simps [simp]:
  "header_sets [] = []"
  "header_sets (t @ u) = header_sets t @ header_sets u"
  "header_sets (Called c out # t) = (case c of SetHeaders hs \<Rightarrow> hs # header_sets t | _ \<Rightarrow> header_sets t)"
  "header_sets (Logged x # t) = header_sets t"
  "header_sets (Sent r # t) = header_sets t"
  by (simp_all add: header_sets_def split: call.splits)

lemma is_close_simps [simp]:
  "is_close Launch = False" "is_close (NewPage h) = False" "is_close (SetViewportSize p a b) = False"
  "is_close (AddStyleTag p v) = False" "is_close (SetContent p v a) = False" "is_close (Evaluate p v) = False"
  "is_close (WaitForSelector p x a) = False" "is_close (WaitForTimeout p a) = False"
  "is_close (Screenshot p opts) = False" "is_close (SetHeaders hs) = False" "is_close (Close p) = True"
  by (simp_all add: is_close_def)

text \<open>
  The \<^verbatim>\<open>try\<close> block, by its outcome: with no failed call it ends with the capture made
  with the options of lines 171 to 175, the headers of lines 180 to 186 set and the image
  sent; it throws the error of the one call that failed, with nothing sent; it returns
  early with a 400 when the validation fails, with no call made.
\<close>

lemma convert_try_summary:
  "triple (\<lambda>s. failures (trace s) = [] \<and> sent (trace s) = [] \<and> captures (trace s) = []
               \<and> header_sets (trace s) = [])
     (convert_try env body)
     (\<lambda>_ s. failures (trace s) = [] \<and>
            captures (trace s) = [screenshotOptions env (field body ''format'' (JStr ''png''))
                                  (field body ''fullPage'' (JBool False))
                                  (field body ''quality'' (JNum (Fin 100)))] \<and>
            (\<exists>shot. screenshot_result env = Inr shot \<and>
                    header_sets (trace s) = [image_headers env (field body ''format'' (JStr ''png'')) shot] \<and>
                    sent (trace s) = [\<lparr>status = 200, headers = image_headers env (field body ''format'' (JStr ''png'')) shot,
                                        payload = Image shot\<rparr>]))
     (\<lambda>a s. case a of
               Throw m \<Rightarrow>
                 failures (trace s) = [m] \<and> sent (trace s) = [] \<and>
                 set (captures (trace s))
                   \<subseteq> {screenshotOptions env (field body ''format'' (JStr ''png''))
                       (field body ''fullPage'' (JBool False))
                       (field body ''quality'' (JNum (Fin 100)))} \<and>
                 (\<forall>hs \<in> set (header_sets (trace s)).
                     \<exists>shot. screenshot_result env = Inr shot \<and> hs = image_headers env (field body ''format'' (JStr ''png'')) shot)
             | Return \<Rightarrow>
                 failures (trace s) = [] \<and> captures (trace s) = [] \<and> header_sets (trace s) = [] \<and>
                 (\<exists>r. sent (trace s) = [r] \<and> status r = 400) \<and>
                 (\<not> truthy (field body ''html'' JUndefined)
                  \<or> js_gt env (field body ''width'' (JNum (Fin 1280))) 3840
                  \<or> js_gt env (field body ''height'' (JNum (Fin 720))) 2160))"
  unfolding convert_try_def wait_step_def Let_def
  apply (intro triple_if triple_send_return triple_bind_initBrowser)
      apply simp
     apply simp
    apply (rule triple_initBrowser; simp)
   apply simp
  apply (simp only: option.case)
  apply (rule triple_bind_inv)
   apply (rule triple_await; simp)
  apply (intro triple_steps; simp)
  done

text \<open>The \<^verbatim>\<open>try\<close> with its \<^verbatim>\<open>catch\<close>: it never throws, and exactly one response is sent.\<close>

lemma convert_attempt_summary:
  "triple (\<lambda>s. failures (trace s) = [] \<and> sent (trace s) = [] \<and> captures (trace s) = []
               \<and> header_sets (trace s) = [])
     (try_catch (convert_try env body) (convert_catch env))
     (\<lambda>_ s.
        (failures (trace s) = [] \<and>
         captures (trace s) = [screenshotOptions env (field body ''format'' (JStr ''png''))
                               (field body ''fullPage'' (JBool False))
                               (field body ''quality'' (JNum (Fin 100)))] \<and>
         (\<exists>shot. screenshot_result env = Inr shot \<and>
                 header_sets (trace s) = [image_headers env (field body ''format'' (JStr ''png'')) shot] \<and>
                 sent (trace s) = [\<lparr>status = 200, headers = image_headers env (field body ''format'' (JStr ''png'')) shot,
                                     payload = Image shot\<rparr>]))
        \<or> (\<exists>m. failures (trace s) = [m] \<and>
                set (captures (trace s))
                  \<subseteq> {screenshotOptions env (field body ''format'' (JStr ''png''))
                      (field body ''fullPage'' (JBool False))
                      (field body ''quality'' (JNum (Fin 100)))} \<and>
                (\<forall>hs \<in> set (header_sets (trace s)).
                    \<exists>shot. screenshot_result env = Inr shot \<and> hs = image_headers env (field body ''format'' (JStr ''png'')) shot) \<and>
                sent (trace s) =
                  [\<lparr>status = fst (error_status m), headers = [],
                    payload = Json ([(''error'', snd (error_status m))]
                                    @ (if node_env env = Some ''development''
                                       then [(''details'', m)] else [])
                                    @ [(''timestamp'', now env)])\<rparr>]))
     (\<lambda>a s. a = Return \<and>
             failures (trace s) = [] \<and> captures (trace s) = [] \<and> header_sets (trace s) = [] \<and>
             (\<exists>r. sent (trace s) = [r] \<and> status r = 400) \<and>
             (\<not> truthy (field body ''html'' JUndefined)
              \<or> js_gt env (field body ''width'' (JNum (Fin 1280))) 3840
              \<or> js_gt env (field body ''height'' (JNum (Fin 720))) 2160))"
  apply (rule triple_try_catch
      [where H = "\<lambda>m s. failures (trace s) = [m] \<and> sent (trace s) = [] \<and>
                 set (captures (trace s))
                   \<subseteq> {screenshotOptions env (field body ''format'' (JStr ''png''))
                       (field body ''fullPage'' (JBool False))
                       (field body ''quality'' (JNum (Fin 100)))} \<and>
                 (\<forall>hs \<in> set (header_sets (trace s)).
                     \<exists>shot. screenshot_result env = Inr shot \<and> hs = image_headers env (field body ''format'' (JStr ''png'')) shot)"])
   apply (rule triple_weaken [OF convert_try_summary])
    apply simp
   apply (simp split: abrupt.splits)
  apply (simp add: convert_catch_def triple_def io_defs split: prod.splits)
  done

lemma convert_finally_eq:
  "convert_finally env s =
     (Inr (), s\<lparr>trace := trace s @
        (case page s of
           None \<Rightarrow> []
         | Some p \<Rightarrow>
             (case close_result env of
                Inr _ \<Rightarrow> [Called (Close p) Resolved]
              | Inl m \<Rightarrow> [Called (Close p) (Rejected m), Logged (''Error closing page: '' @ m)]))\<rparr>)"
  by (simp add: convert_finally_def io_defs split: option.splits sum.splits)

text \<open>The handler is the attempt followed by the close of the page, if one is held.\<close>

lemma convert_eq:
  "convert env body (start b) =
     (case try_catch (convert_try env body) (convert_catch env) (start b) of
        (r, s1) \<Rightarrow>
          (case r of Inl (Throw e) \<Rightarrow> Inl (Throw e) | Inl Return \<Rightarrow> Inr () | Inr _ \<Rightarrow> Inr (),
           s1\<lparr>trace := trace s1 @
             (case page s1 of
                None \<Rightarrow> []
              | Some p \<Rightarrow>
                  (case close_result env of
                     Inr _ \<Rightarrow> [Called (Close p) Resolved]
                   | Inl m \<Rightarrow> [Called (Close p) (Rejected m), Logged (''Error closing page: '' @ m)]))\<rparr>))"
  by (simp add: convert_def function_body_def seq_def bind_def set_page_def try_finally_def
        convert_finally_eq start_def split: prod.splits sum.splits abrupt.splits)

lemma closing_observed [simp]:
  "failures (case pg of None \<Rightarrow> [] | Some p \<Rightarrow>
      (case c of Inr _ \<Rightarrow> [Called (Close p) Resolved]
       | Inl m \<Rightarrow> [Called (Close p) (Rejected m), Logged (''Error closing page: '' @ m)])) = []"
  "sent (case pg of None \<Rightarrow> [] | Some p \<Rightarrow>
      (case c of Inr _ \<Rightarrow> [Called (Close p) Resolved]
       | Inl m \<Rightarrow> [Called (Close p) (Rejected m), Logged (''Error closing page: '' @ m)])) = []"
  "captures (case pg of None \<Rightarrow> [] | Some p \<Rightarrow>
      (case c of Inr _ \<Rightarrow> [Called (Close p) Resolved]
       | Inl m \<Rightarrow> [Called (Close p) (Rejected m), Logged (''Error closing page: '' @ m)])) = []"
  "waits (case pg of None \<Rightarrow> [] | Some p \<Rightarrow>
      (case c of Inr _ \<Rightarrow> [Called (Close p) Resolved]
       | Inl m \<Rightarrow> [Called (Close p) (Rejected m), Logged (''Error closing page: '' @ m)])) = []"
  "created (case pg of None \<Rightarrow> [] | Some p \<Rightarrow>
      (case c of Inr _ \<Rightarrow> [Called (Close p) Resolved]
       | Inl m \<Rightarrow> [Called (Close p) (Rejected m), Logged (''Error closing page: '' @ m)])) = []"
  "header_sets (case pg of None \<Rightarrow> [] | Some p \<Rightarrow>
      (case c of Inr _ \<Rightarrow> [Called (Close p) Resolved]
       | Inl m \<Rightarrow> [Called (Close p) (Rejected m), Logged (''Error closing page: '' @ m)])) = []"
  by (simp_all split: option.splits sum.splits)

text \<open>What a run of the handler from a fresh trace has done, by its outcome.\<close>

lemma convert_summary:
  assumes "convert env body (start b) = (res, s')"
  shows "res = Inr () \<and>
    ((failures (trace s') = [] \<and>
      captures (trace s') = [screenshotOptions env (field body ''format'' (JStr ''png''))
                            (field body ''fullPage'' (JBool False))
                            (field body ''quality'' (JNum (Fin 100)))] \<and>
      (\<exists>shot. screenshot_result env = Inr shot \<and>
              header_sets (trace s') = [image_headers env (field body ''format'' (JStr ''png'')) shot] \<and>
              sent (trace s') = [\<lparr>status = 200, headers = image_headers env (field body ''format'' (JStr ''png'')) shot,
                                  payload = Image shot\<rparr>]))
     \<or> (\<exists>m. failures (trace s') = [m] \<and>
             set (captures (trace s'))
               \<subseteq> {screenshotOptions env (field body ''format'' (JStr ''png''))
                   (field body ''fullPage'' (JBool False))
                   (field body ''quality'' (JNum (Fin 100)))} \<and>
             (\<forall>hs \<in> set (header_sets (trace s')).
                 \<exists>shot. screenshot_result env = Inr shot \<and> hs = image_headers env (field body ''format'' (JStr ''png'')) shot) \<and>
             sent (trace s') =
               [\<lparr>status = fst (error_status m), headers = [],
                 payload = Json ([(''error'', snd (error_status m))]
                                 @ (if node_env env = Some ''development''
                                    then [(''details'', m)] else [])
                                 @ [(''timestamp'', now env)])\<rparr>])
     \<or> (failures (trace s') = [] \<and> captures (trace s') = [] \<and> header_sets (trace s') = [] \<and>
         (\<exists>r. sent (trace s') = [r] \<and> status r = 400) \<and>
         (\<not> truthy (field body ''html'' JUndefined)
          \<or> js_gt env (field body ''width'' (JNum (Fin 1280))) 3840
          \<or> js_gt env (field body ''height'' (JNum (Fin 720))) 2160)))"
proof -
  obtain r1 s1 where a: "try_catch (convert_try env body) (convert_catch env) (start b) = (r1, s1)"
    by fastforce
  have p: "failures (trace (start b)) = [] \<and> sent (trace (start b)) = [] \<and> captures (trace (start b)) = []
               \<and> header_sets (trace (start b)) = []"
    by (simp add: start_def)
  note f = tripleD [OF convert_attempt_summary, of "start b", OF p a]
  show ?thesis
  proof (cases r1)
    case (Inl x)
    with f assms a show ?thesis by (auto simp add: convert_eq)
  next
    case (Inr y)
    with f assms a show ?thesis by (auto simp add: convert_eq)
  qed
qed

lemma error_status_cases:
  "fst (error_status m) =
     (if str_includes m ''timeout'' then 408
      else if str_includes m ''net::ERR_'' then 400
      else if str_includes m ''Protocol error'' then 500
      else 500)"
  by (simp add: error_status_def)

section \<open>Concrete runs\<close>

lemmas run_defs = convert_def convert_try_def convert_catch_def convert_finally_def wait_step_def
  initBrowser_def screenshotOptions_def image_headers_def error_status_def field_def start_def
  all_resolve_def is_string_def is_number_def isNaN_def js_gt_number parseInt_numeral to_string_def
  integer_toString_def show_int_def Let_def io_defs show_nat.simps digit_char_def char_of_eq_iff

text \<open>
  A request with html and a viewport, every call resolving: the image is sent, the page
  closed.
\<close>

lemma run_png:
  "convert all_resolve
     [''html'' \<mapsto> JStr ''<h1>Test</h1>'', ''width'' \<mapsto> JNum (Fin 800), ''height'' \<mapsto> JNum (Fin 600)]
     (start None) =
   (Inr (),
    \<lparr>browser = Some 1, page = Some 7,
     trace =
       [Logged ''Launching browser...'',
        Called Launch Resolved,
        Logged ''Browser launched successfully'',
        Called (NewPage 1) Resolved,
        Called (SetViewportSize 7 (Fin 800) (Fin 600)) Resolved,
        Called (SetContent 7 (JStr ''<h1>Test</h1>'') (Fin 30000)) Resolved,
        Called (Screenshot 7 \<lparr>shot_type = JStr ''png'', shot_fullPage = JBool False, shot_quality = None\<rparr>)
          Resolved,
        Called (SetHeaders [(''Content-Type'', ''image/png''), (''Content-Length'', ''4''),
                            (''Cache-Control'', ''no-cache, no-store, must-revalidate''),
                            (''Pragma'', ''no-cache''), (''Expires'', ''0'')])
          Resolved,
        Sent \<lparr>status = 200,
              headers = [(''Content-Type'', ''image/png''), (''Content-Length'', ''4''),
                          (''Cache-Control'', ''no-cache, no-store, must-revalidate''),
                          (''Pragma'', ''no-cache''), (''Expires'', ''0'')],
              payload = Image [137, 80, 78, 71]\<rparr>,
        Called (Close 7) Resolved]\<rparr>)"
  by (simp add: run_defs)

text \<open>
  A format outside the enumeration and a quality outside 1 to 100, with the browser
  held.
\<close>

lemma run_webp:
  "convert all_resolve
     [''html'' \<mapsto> JStr ''<p>x</p>'', ''format'' \<mapsto> JStr ''webp'', ''quality'' \<mapsto> JNum (Fin 500)]
     (start (Some 1)) =
   (Inr (),
    \<lparr>browser = Some 1, page = Some 7,
     trace =
       [Called (NewPage 1) Resolved,
        Called (SetViewportSize 7 (Fin 1280) (Fin 720)) Resolved,
        Called (SetContent 7 (JStr ''<p>x</p>'') (Fin 30000)) Resolved,
        Called (Screenshot 7 \<lparr>shot_type = JStr ''webp'', shot_fullPage = JBool False, shot_quality = None\<rparr>)
          Resolved,
        Called (SetHeaders [(''Content-Type'', ''image/webp''), (''Content-Length'', ''4''),
                            (''Cache-Control'', ''no-cache, no-store, must-revalidate''),
                            (''Pragma'', ''no-cache''), (''Expires'', ''0'')])
          Resolved,
        Sent \<lparr>status = 200,
              headers = [(''Content-Type'', ''image/webp''), (''Content-Length'', ''4''),
                          (''Cache-Control'', ''no-cache, no-store, must-revalidate''),
                          (''Pragma'', ''no-cache''), (''Expires'', ''0'')],
              payload = Image [137, 80, 78, 71]\<rparr>,
        Called (Close 7) Resolved]\<rparr>)"
  by (simp add: run_defs)

text \<open>The lossy format with a quality, and the full page.\<close>

lemma run_jpeg:
  "convert all_resolve
     [''html'' \<mapsto> JStr ''<p>x</p>'', ''format'' \<mapsto> JStr ''jpeg'', ''quality'' \<mapsto> JNum (Fin 80),
      ''fullPage'' \<mapsto> JBool True]
     (start (Some 1)) =
   (Inr (),
    \<lparr>browser = Some 1, page = Some 7,
     trace =
       [Called (NewPage 1) Resolved,
        Called (SetViewportSize 7 (Fin 1280) (Fin 720)) Resolved,
        Called (SetContent 7 (JStr ''<p>x</p>'') (Fin 30000)) Resolved,
        Called (Screenshot 7 \<lparr>shot_type = JStr ''jpeg'', shot_fullPage = JBool True, shot_quality = Some (Fin 80)\<rparr>)
          Resolved,
        Called (SetHeaders [(''Content-Type'', ''image/jpeg''), (''Content-Length'', ''4''),
                            (''Cache-Control'', ''no-cache, no-store, must-revalidate''),
                            (''Pragma'', ''no-cache''), (''Expires'', ''0'')])
          Resolved,
        Sent \<lparr>status = 200,
              headers = [(''Content-Type'', ''image/jpeg''), (''Content-Length'', ''4''),
                          (''Cache-Control'', ''no-cache, no-store, must-revalidate''),
                          (''Pragma'', ''no-cache''), (''Expires'', ''0'')],
              payload = Image [137, 80, 78, 71]\<rparr>,
        Called (Close 7) Resolved]\<rparr>)"
  by (simp add: run_defs)

text \<open>
  A wait for a selector that rejects, and a close of the page that rejects as well.
\<close>

lemma run_timeout:
  "convert (all_resolve\<lparr>waitForSelector_result := Inl ''timeout 200ms exceeded'',
                        close_result := Inl ''Target closed''\<rparr>)
     [''html'' \<mapsto> JStr ''<div>x</div>'', ''waitFor'' \<mapsto> JStr ''selector:#missing'',
      ''timeout'' \<mapsto> JNum (Fin 200)]
     (start (Some 1)) =
   (Inr (),
    \<lparr>browser = Some 1, page = Some 7,
     trace =
       [Called (NewPage 1) Resolved,
        Called (SetViewportSize 7 (Fin 1280) (Fin 720)) Resolved,
        Called (SetContent 7 (JStr ''<div>x</div>'') (Fin 200)) Resolved,
        Called (WaitForSelector 7 ''#missing'' (Fin 200)) (Rejected ''timeout 200ms exceeded''),
        Logged ''Conversion error: timeout 200ms exceeded'',
        Sent \<lparr>status = 408, headers = [],
              payload = Json [(''error'', ''Request timeout - page took too long to load''),
                              (''timestamp'', ''2024-01-01T00:00:00.000Z'')]\<rparr>,
        Called (Close 7) (Rejected ''Target closed''),
        Logged ''Error closing page: Target closed'']\<rparr>)"
  by (simp add: run_defs)

text \<open>A waitFor that holds the marker after its first character.\<close>

lemma run_marker_inside:
  "convert all_resolve
     [''html'' \<mapsto> JStr ''<p>x</p>'', ''waitFor'' \<mapsto> JStr ''x selector:#a'']
     (start (Some 1)) =
   (Inr (),
    \<lparr>browser = Some 1, page = Some 7,
     trace =
       [Called (NewPage 1) Resolved,
        Called (SetViewportSize 7 (Fin 1280) (Fin 720)) Resolved,
        Called (SetContent 7 (JStr ''<p>x</p>'') (Fin 30000)) Resolved,
        Called (WaitForSelector 7 ''x #a'' (Fin 30000)) Resolved,
        Called (Screenshot 7 \<lparr>shot_type = JStr ''png'', shot_fullPage = JBool False, shot_quality = None\<rparr>)
          Resolved,
        Called (SetHeaders [(''Content-Type'', ''image/png''), (''Content-Length'', ''4''),
                            (''Cache-Control'', ''no-cache, no-store, must-revalidate''),
                            (''Pragma'', ''no-cache''), (''Expires'', ''0'')])
          Resolved,
        Sent \<lparr>status = 200,
              headers = [(''Content-Type'', ''image/png''), (''Content-Length'', ''4''),
                          (''Cache-Control'', ''no-cache, no-store, must-revalidate''),
                          (''Pragma'', ''no-cache''), (''Expires'', ''0'')],
              payload = Image [137, 80, 78, 71]\<rparr>,
        Called (Close 7) Resolved]\<rparr>)"
  by (simp add: run_defs)

text \<open>A waitFor prefixed with the marker.\<close>

lemma run_marker_prefix:
  "convert all_resolve
     [''html'' \<mapsto> JStr ''<p>x</p>'', ''waitFor'' \<mapsto> JStr ''selector:#app'']
     (start (Some 1)) =
   (Inr (),
    \<lparr>browser = Some 1, page = Some 7,
     trace =
       [Called (NewPage 1) Resolved,
        Called (SetViewportSize 7 (Fin 1280) (Fin 720)) Resolved,
        Called (SetContent 7 (JStr ''<p>x</p>'') (Fin 30000)) Resolved,
        Called (WaitForSelector 7 ''#app'' (Fin 30000)) Resolved,
        Called (Screenshot 7 \<lparr>shot_type = JStr ''png'', shot_fullPage = JBool False, shot_quality = None\<rparr>)
          Resolved,
        Called (SetHeaders [(''Content-Type'', ''image/png''), (''Content-Length'', ''4''),
                            (''Cache-Control'', ''no-cache, no-store, must-revalidate''),
                            (''Pragma'', ''no-cache''), (''Expires'', ''0'')])
          Resolved,
        Sent \<lparr>status = 200,
              headers = [(''Content-Type'', ''image/png''), (''Content-Length'', ''4''),
                          (''Cache-Control'', ''no-cache, no-store, must-revalidate''),
                          (''Pragma'', ''no-cache''), (''Expires'', ''0'')],
              payload = Image [137, 80, 78, 71]\<rparr>,
        Called (Close 7) Resolved]\<rparr>)"
  by (simp add: run_defs)

text \<open>A waitFor that is a number of milliseconds.\<close>

lemma run_pause:
  "convert all_resolve
     [''html'' \<mapsto> JStr ''<p>x</p>'', ''waitFor'' \<mapsto> JNum (Fin 250)]
     (start (Some 1)) =
   (Inr (),
    \<lparr>browser = Some 1, page = Some 7,
     trace =
       [Called (NewPage 1) Resolved,
        Called (SetViewportSize 7 (Fin 1280) (Fin 720)) Resolved,
        Called (SetContent 7 (JStr ''<p>x</p>'') (Fin 30000)) Resolved,
        Called (WaitForTimeout 7 (Fin 250)) Resolved,
        Called (Screenshot 7 \<lparr>shot_type = JStr ''png'', shot_fullPage = JBool False, shot_quality = None\<rparr>)
          Resolved,
        Called (SetHeaders [(''Content-Type'', ''image/png''), (''Content-Length'', ''4''),
                            (''Cache-Control'', ''no-cache, no-store, must-revalidate''),
                            (''Pragma'', ''no-cache''), (''Expires'', ''0'')])
          Resolved,
        Sent \<lparr>status = 200,
              headers = [(''Content-Type'', ''image/png''), (''Content-Length'', ''4''),
                          (''Cache-Control'', ''no-cache, no-store, must-revalidate''),
                          (''Pragma'', ''no-cache''), (''Expires'', ''0'')],
              payload = Image [137, 80, 78, 71]\<rparr>,
        Called (Close 7) Resolved]\<rparr>)"
  by (simp add: run_defs)

text \<open>
  A waitFor that is a number from which \<^verbatim>\<open>parseInt\<close> reads none:
  the pause is asked for with \<open>NaN\<close>.
\<close>

lemma run_infinity:
  "convert all_resolve
     [''html'' \<mapsto> JStr ''<p>x</p>'', ''waitFor'' \<mapsto> JNum PosInf]
     (start (Some 1)) =
   (Inr (),
    \<lparr>browser = Some 1, page = Some 7,
     trace =
       [Called (NewPage 1) Resolved,
        Called (SetViewportSize 7 (Fin 1280) (Fin 720)) Resolved,
        Called (SetContent 7 (JStr ''<p>x</p>'') (Fin 30000)) Resolved,
        Called (WaitForTimeout 7 NotANumber) Resolved,
        Called (Screenshot 7 \<lparr>shot_type = JStr ''png'', shot_fullPage = JBool False, shot_quality = None\<rparr>)
          Resolved,
        Called (SetHeaders [(''Content-Type'', ''image/png''), (''Content-Length'', ''4''),
                            (''Cache-Control'', ''no-cache, no-store, must-revalidate''),
                            (''Pragma'', ''no-cache''), (''Expires'', ''0'')])
          Resolved,
        Sent \<lparr>status = 200,
              headers = [(''Content-Type'', ''image/png''), (''Content-Length'', ''4''),
                          (''Cache-Control'', ''no-cache, no-store, must-revalidate''),
                          (''Pragma'', ''no-cache''), (''Expires'', ''0'')],
              payload = Image [137, 80, 78, 71]\<rparr>,
        Called (Close 7) Resolved]\<rparr>)"
  by (simp add: run_defs parseInt_infinity)

text \<open>
  A format with a line break in it, which \<^verbatim>\<open>res.set\<close> refuses as a header value: the
  capture is made, the error is caught and answered with a 500.
\<close>

lemma run_header_refused:
  "convert (all_resolve\<lparr>setHeaders_result :=
              Inl (''Invalid character in header content ['' @ [CHR 0x22] @ ''Content-Type''
                   @ [CHR 0x22] @ '']'')\<rparr>)
     [''html'' \<mapsto> JStr ''<p>x</p>'', ''format'' \<mapsto> JStr (''png'' @ [CHR 0x0A])]
     (start (Some 1)) =
   (Inr (),
    \<lparr>browser = Some 1, page = Some 7,
     trace =
       [Called (NewPage 1) Resolved,
        Called (SetViewportSize 7 (Fin 1280) (Fin 720)) Resolved,
        Called (SetContent 7 (JStr ''<p>x</p>'') (Fin 30000)) Resolved,
        Called (Screenshot 7 \<lparr>shot_type = JStr (''png'' @ [CHR 0x0A]), shot_fullPage = JBool False,
                                 shot_quality = None\<rparr>)
          Resolved,
        Called (SetHeaders [(''Content-Type'', ''image/png'' @ [CHR 0x0A]), (''Content-Length'', ''4''),
                            (''Cache-Control'', ''no-cache, no-store, must-revalidate''),
                            (''Pragma'', ''no-cache''), (''Expires'', ''0'')])
          (Rejected (''Invalid character in header content ['' @ [CHR 0x22] @ ''Content-Type''
                     @ [CHR 0x22] @ '']'')),
        Logged (''Conversion error: Invalid character in header content ['' @ [CHR 0x22]
                @ ''Content-Type'' @ [CHR 0x22] @ '']''),
        Sent \<lparr>status = 500, headers = [],
              payload = Json [(''error'', ''Internal server error during conversion''),
                              (''timestamp'', ''2024-01-01T00:00:00.000Z'')]\<rparr>,
        Called (Close 7) Resolved]\<rparr>)"
  by (simp add: run_defs)

section \<open>POST /convert: the error mapping\<close>

text \<open>
  What the \<^verbatim>\<open>catch\<close> block does with the failure of a call (any call but the close of
  the page), with \<open>m\<close> the message of the error: the handler sends exactly one response,
  mapped from \<open>m\<close> by the tests of lines 198 to 207 in their order, a message containing
  \<^verbatim>\<open>timeout\<close> giving 408, otherwise one containing \<^verbatim>\<open>net::ERR_\<close> giving 400, otherwise
  one containing \<^verbatim>\<open>Protocol error\<close> giving 500, any other giving 500; the body is JSON
  and carries the timestamp. The failed call is the only one that failed, and the
  handler itself ends normally.
\<close>

lemma convert_error_response:
  assumes "convert env body (start b) = (res, s')"
    and "m \<in> set (failures (trace s'))"
  shows "\<exists>r fields. sent (trace s') = [r] \<and>
           status r = (if str_includes m ''timeout'' then 408
                       else if str_includes m ''net::ERR_'' then 400
                       else if str_includes m ''Protocol error'' then 500
                       else 500) \<and>
           payload r = Json fields \<and> (''timestamp'', now env) \<in> set fields \<and>
           failures (trace s') = [m] \<and> res = Inr ()"
  using convert_summary [OF assms(1)] assms(2)
  by (auto simp add: error_status_cases)

text \<open>
  C5. A failure whose message indicates a timeout is to give 408. The test of line 198
  looks for \<^verbatim>\<open>timeout\<close> in lower case, and the message with which the browser engine
  rejects a wait that ran out of time says \<^verbatim>\<open>Timeout\<close>: a request that waits 200 ms
  for a selector that never appears is answered 500 with the generic error, not 408. The
  rest of the claim holds (lemma \<open>convert_error_response\<close>): one response, mapped once,
  with the timestamp.
\<close>

theorem convert_timeout_unmapped:
  "convert (all_resolve\<lparr>waitForSelector_result := Inl ''page.waitForSelector: Timeout 200ms exceeded.''\<rparr>)
     [''html'' \<mapsto> JStr ''<div>x</div>'', ''waitFor'' \<mapsto> JStr ''selector:#missing'',
      ''timeout'' \<mapsto> JNum (Fin 200)]
     (start (Some 1)) =
   (Inr (),
    \<lparr>browser = Some 1, page = Some 7,
     trace =
       [Called (NewPage 1) Resolved,
        Called (SetViewportSize 7 (Fin 1280) (Fin 720)) Resolved,
        Called (SetContent 7 (JStr ''<div>x</div>'') (Fin 200)) Resolved,
        Called (WaitForSelector 7 ''#missing'' (Fin 200))
          (Rejected ''page.waitForSelector: Timeout 200ms exceeded.''),
        Logged ''Conversion error: page.waitForSelector: Timeout 200ms exceeded.'',
        Sent \<lparr>status = 500, headers = [],
              payload = Json [(''error'', ''Internal server error during conversion''),
                              (''timestamp'', ''2024-01-01T00:00:00.000Z'')]\<rparr>,
        Called (Close 7) Resolved]\<rparr>)"
  by (simp add: run_defs)

section \<open>POST /convert: the capture\<close>

text \<open>
  C9. For every successful conversion (a response with status 200 was sent), exactly one
  capture was made, with these options: the type is the request's format (\<^verbatim>\<open>png\<close> when
  absent); \<^verbatim>\<open>fullPage\<close> is the request's fullPage (\<^verbatim>\<open>false\<close> when absent), so the full
  page is asked for exactly when the request says true and the viewport otherwise; the
  quality is \<^verbatim>\<open>parseInt\<close> of the request's quality (100 when absent) when the format is
  \<^verbatim>\<open>jpeg\<close>, and is left out for any other format, png included.
\<close>

theorem convert_capture_options:
  assumes "convert env body (start b) = (res, s')"
    and "r \<in> set (sent (trace s'))" and "status r = 200"
  shows "captures (trace s') =
           [\<lparr>shot_type = field body ''format'' (JStr ''png''),
             shot_fullPage = field body ''fullPage'' (JBool False),
             shot_quality = (if field body ''format'' (JStr ''png'') = JStr ''jpeg''
                             then Some (parseInt env (field body ''quality'' (JNum (Fin 100))))
                             else None)\<rparr>]"
  using convert_summary [OF assms(1)] assms(2,3)
  by (auto simp add: error_status_def screenshotOptions_def split: if_splits)

theorem convert_capture_options_witness:
  "(\<exists>s' r. convert all_resolve
             [''html'' \<mapsto> JStr ''<p>x</p>'', ''format'' \<mapsto> JStr ''jpeg'', ''quality'' \<mapsto> JNum (Fin 80),
              ''fullPage'' \<mapsto> JBool True]
             (start (Some 1)) = (Inr (), s') \<and>
          r \<in> set (sent (trace s')) \<and> status r = 200 \<and>
          captures (trace s') =
            [\<lparr>shot_type = JStr ''jpeg'', shot_fullPage = JBool True, shot_quality = Some (Fin 80)\<rparr>])
   \<and> (\<exists>s' r. convert all_resolve
             [''html'' \<mapsto> JStr ''<h1>Test</h1>'', ''width'' \<mapsto> JNum (Fin 800), ''height'' \<mapsto> JNum (Fin 600)]
             (start None) = (Inr (), s') \<and>
          r \<in> set (sent (trace s')) \<and> status r = 200 \<and>
          captures (trace s') =
            [\<lparr>shot_type = JStr ''png'', shot_fullPage = JBool False, shot_quality = None\<rparr>])"
proof -
  let ?jpeg = "\<lparr>status = 200,
              headers = [(''Content-Type'', ''image/jpeg''), (''Content-Length'', ''4''),
                       (''Cache-Control'', ''no-cache, no-store, must-revalidate''),
                       (''Pragma'', ''no-cache''), (''Expires'', ''0'')],
              payload = Image [137, 80, 78, 71]\<rparr>"
  let ?png = "\<lparr>status = 200,
              headers = [(''Content-Type'', ''image/png''), (''Content-Length'', ''4''),
                       (''Cache-Control'', ''no-cache, no-store, must-revalidate''),
                       (''Pragma'', ''no-cache''), (''Expires'', ''0'')],
              payload = Image [137, 80, 78, 71]\<rparr>"
  have ok: "status ?jpeg = 200" "status ?png = 200" by simp_all
  from convert_capture_options [OF run_jpeg _ ok(1)] convert_capture_options [OF run_png _ ok(2)]
    run_jpeg run_png
  show ?thesis
    by (simp add: field_def parseInt_numeral all_resolve_def)
qed

text \<open>
  C10. The format is not checked against png and jpeg, nor the quality against 1 to
  100. For every request that passes the html and the dimension checks and whose format
  is a string \<open>f\<close> (\<^verbatim>\<open>png\<close> when absent): every capture of the run is asked for the type
  \<open>f\<close> as it is, with \<^verbatim>\<open>parseInt\<close> of the quality when \<open>f\<close> is \<^verbatim>\<open>jpeg\<close>, whatever its
  value; every header object given to \<^verbatim>\<open>res.set\<close> and every response of status 200 has
  the Content-Type \<^verbatim>\<open>image/\<close> followed by \<open>f\<close>; and unless a call fails (a call to the
  browser engine, or \<^verbatim>\<open>res.set\<close> refusing a header), the capture is made with these
  options and the response is the image with the five headers of lines 180 to 186, so
  that no format and no quality is turned down by the handler.
\<close>

theorem convert_format_unvalidated:
  assumes "convert env body (start b) = (res, s')"
    and "truthy (field body ''html'' JUndefined)"
    and "\<not> js_gt env (field body ''width'' (JNum (Fin 1280))) 3840"
    and "\<not> js_gt env (field body ''height'' (JNum (Fin 720))) 2160"
    and "field body ''format'' (JStr ''png'') = JStr f"
  shows "(\<forall>opts \<in> set (captures (trace s')).
            shot_type opts = JStr f \<and>
            shot_quality opts = (if f = ''jpeg''
                                 then Some (parseInt env (field body ''quality'' (JNum (Fin 100))))
                                 else None))
       \<and> (\<forall>hs \<in> set (header_sets (trace s')). map_of hs ''Content-Type'' = Some (''image/'' @ f))
       \<and> (\<forall>r \<in> set (sent (trace s')).
            status r = 200 \<longrightarrow> map_of (headers r) ''Content-Type'' = Some (''image/'' @ f))
       \<and> (failures (trace s') = [] \<longrightarrow>
            (\<exists>shot. screenshot_result env = Inr shot \<and>
               captures (trace s') =
                 [\<lparr>shot_type = JStr f,
                   shot_fullPage = field body ''fullPage'' (JBool False),
                   shot_quality = (if f = ''jpeg''
                                   then Some (parseInt env (field body ''quality'' (JNum (Fin 100))))
                                   else None)\<rparr>] \<and>
               header_sets (trace s') =
                 [[(''Content-Type'', ''image/'' @ f),
                   (''Content-Length'', number_toString env (Fin (of_nat (length shot)))),
                   (''Cache-Control'', ''no-cache, no-store, must-revalidate''),
                   (''Pragma'', ''no-cache''),
                   (''Expires'', ''0'')]] \<and>
               sent (trace s') =
                 [\<lparr>status = 200,
                   headers = [(''Content-Type'', ''image/'' @ f),
                              (''Content-Length'', number_toString env (Fin (of_nat (length shot)))),
                              (''Cache-Control'', ''no-cache, no-store, must-revalidate''),
                              (''Pragma'', ''no-cache''),
                              (''Expires'', ''0'')],
                   payload = Image shot\<rparr>]))"
proof -
  let ?opts = "screenshotOptions env (JStr f) (field body ''fullPage'' (JBool False))
                 (field body ''quality'' (JNum (Fin 100)))"
  have o: "?opts = \<lparr>shot_type = JStr f,
                   shot_fullPage = field body ''fullPage'' (JBool False),
                   shot_quality = (if f = ''jpeg''
                                   then Some (parseInt env (field body ''quality'' (JNum (Fin 100))))
                                   else None)\<rparr>"
    by (simp add: screenshotOptions_def)
  have e: "fst (error_status m) \<noteq> 200" for m
    by (simp add: error_status_def)
  have i: "image_headers env (JStr f) shot =
             [(''Content-Type'', ''image/'' @ f),
              (''Content-Length'', number_toString env (Fin (of_nat (length shot)))),
              (''Cache-Control'', ''no-cache, no-store, must-revalidate''),
              (''Pragma'', ''no-cache''),
              (''Expires'', ''0'')]" for shot
    by (simp add: image_headers_def to_string_def)
  from convert_summary [OF assms(1)] assms(2-4)
  consider
    (ok) shot where "failures (trace s') = []" "captures (trace s') = [?opts]"
      "screenshot_result env = Inr shot"
      "header_sets (trace s') = [image_headers env (JStr f) shot]"
      "sent (trace s') = [\<lparr>status = 200, headers = image_headers env (JStr f) shot,
                           payload = Image shot\<rparr>]"
  | (failed) m where "failures (trace s') = [m]" "set (captures (trace s')) \<subseteq> {?opts}"
      "\<forall>hs \<in> set (header_sets (trace s')).
          \<exists>shot. screenshot_result env = Inr shot \<and> hs = image_headers env (JStr f) shot"
      "sent (trace s') = [\<lparr>status = fst (error_status m), headers = [],
                 payload = Json ([(''error'', snd (error_status m))]
                                 @ (if node_env env = Some ''development''
                                    then [(''details'', m)] else [])
                                 @ [(''timestamp'', now env)])\<rparr>]"
    unfolding assms(5) by blast
  then show ?thesis
  proof cases
    case ok
    then show ?thesis unfolding o i by simp
  next
    case failed
    have c: "\<forall>opts \<in> set (captures (trace s')).
            shot_type opts = JStr f \<and>
            shot_quality opts = (if f = ''jpeg''
                                 then Some (parseInt env (field body ''quality'' (JNum (Fin 100))))
                                 else None)"
      using failed(2) unfolding o by auto
    have h: "\<forall>hs \<in> set (header_sets (trace s')). map_of hs ''Content-Type'' = Some (''image/'' @ f)"
      using failed(3) unfolding i by auto
    from c h e failed(1,4) show ?thesis by simp
  qed
qed

theorem convert_format_unvalidated_witness:
  "(\<exists>s'. convert all_resolve
           [''html'' \<mapsto> JStr ''<p>x</p>'', ''format'' \<mapsto> JStr ''webp'', ''quality'' \<mapsto> JNum (Fin 500)]
           (start (Some 1)) = (Inr (), s') \<and>
        failures (trace s') = [] \<and>
        captures (trace s') =
          [\<lparr>shot_type = JStr ''webp'', shot_fullPage = JBool False, shot_quality = None\<rparr>] \<and>
        header_sets (trace s') = [[(''Content-Type'', ''image/webp''), (''Content-Length'', ''4''),
                                   (''Cache-Control'', ''no-cache, no-store, must-revalidate''),
                                   (''Pragma'', ''no-cache''), (''Expires'', ''0'')]] \<and>
        sent (trace s') =
          [\<lparr>status = 200,
            headers = [(''Content-Type'', ''image/webp''), (''Content-Length'', ''4''),
                       (''Cache-Control'', ''no-cache, no-store, must-revalidate''),
                       (''Pragma'', ''no-cache''), (''Expires'', ''0'')],
            payload = Image [137, 80, 78, 71]\<rparr>])
   \<and> (\<exists>s'. convert all_resolve
           [''html'' \<mapsto> JStr ''<p>x</p>'', ''format'' \<mapsto> JStr ''jpeg'', ''quality'' \<mapsto> JNum (Fin 80),
            ''fullPage'' \<mapsto> JBool True]
           (start (Some 1)) = (Inr (), s') \<and>
        failures (trace s') = [] \<and>
        captures (trace s') =
          [\<lparr>shot_type = JStr ''jpeg'', shot_fullPage = JBool True, shot_quality = Some (Fin 80)\<rparr>] \<and>
        sent (trace s') =
          [\<lparr>status = 200,
            headers = [(''Content-Type'', ''image/jpeg''), (''Content-Length'', ''4''),
                       (''Cache-Control'', ''no-cache, no-store, must-revalidate''),
                       (''Pragma'', ''no-cache''), (''Expires'', ''0'')],
            payload = Image [137, 80, 78, 71]\<rparr>])
   \<and> (\<exists>s'. convert (all_resolve\<lparr>setHeaders_result :=
                     Inl (''Invalid character in header content ['' @ [CHR 0x22] @ ''Content-Type''
                          @ [CHR 0x22] @ '']'')\<rparr>)
           [''html'' \<mapsto> JStr ''<p>x</p>'', ''format'' \<mapsto> JStr (''png'' @ [CHR 0x0A])]
           (start (Some 1)) = (Inr (), s') \<and>
        failures (trace s') = [''Invalid character in header content ['' @ [CHR 0x22] @ ''Content-Type''
                               @ [CHR 0x22] @ '']''] \<and>
        captures (trace s') =
          [\<lparr>shot_type = JStr (''png'' @ [CHR 0x0A]), shot_fullPage = JBool False, shot_quality = None\<rparr>] \<and>
        header_sets (trace s') =
          [[(''Content-Type'', ''image/png'' @ [CHR 0x0A]), (''Content-Length'', ''4''),
            (''Cache-Control'', ''no-cache, no-store, must-revalidate''),
            (''Pragma'', ''no-cache''), (''Expires'', ''0'')]] \<and>
        sent (trace s') =
          [\<lparr>status = 500, headers = [],
            payload = Json [(''error'', ''Internal server error during conversion''),
                            (''timestamp'', ''2024-01-01T00:00:00.000Z'')]\<rparr>])"
proof -
  let ?refused = "[''html'' \<mapsto> JStr ''<p>x</p>'', ''format'' \<mapsto> JStr (''png'' @ [CHR 0x0A])]"
  let ?env = "all_resolve\<lparr>setHeaders_result :=
                     Inl (''Invalid character in header content ['' @ [CHR 0x22] @ ''Content-Type''
                          @ [CHR 0x22] @ '']'')\<rparr>"
  let ?webp = "[''html'' \<mapsto> JStr ''<p>x</p>'', ''format'' \<mapsto> JStr ''webp'', ''quality'' \<mapsto> JNum (Fin 500)]"
  let ?jpeg = "[''html'' \<mapsto> JStr ''<p>x</p>'', ''format'' \<mapsto> JStr ''jpeg'', ''quality'' \<mapsto> JNum (Fin 80),
            ''fullPage'' \<mapsto> JBool True]"
  have h: "truthy (field ?webp ''html'' JUndefined)"
    and w: "\<not> js_gt all_resolve (field ?webp ''width'' (JNum (Fin 1280))) 3840"
    and d: "\<not> js_gt all_resolve (field ?webp ''height'' (JNum (Fin 720))) 2160"
    and f: "field ?webp ''format'' (JStr ''png'') = JStr ''webp''"
    by (simp_all add: field_def js_gt_number)
  have h': "truthy (field ?jpeg ''html'' JUndefined)"
    and w': "\<not> js_gt all_resolve (field ?jpeg ''width'' (JNum (Fin 1280))) 3840"
    and d': "\<not> js_gt all_resolve (field ?jpeg ''height'' (JNum (Fin 720))) 2160"
    and f': "field ?jpeg ''format'' (JStr ''png'') = JStr ''jpeg''"
    by (simp_all add: field_def js_gt_number)
  have h'': "truthy (field ?refused ''html'' JUndefined)"
    and w'': "\<not> js_gt ?env (field ?refused ''width'' (JNum (Fin 1280))) 3840"
    and d'': "\<not> js_gt ?env (field ?refused ''height'' (JNum (Fin 720))) 2160"
    and f'': "field ?refused ''format'' (JStr ''png'') = JStr (''png'' @ [CHR 0x0A])"
    by (simp_all add: field_def js_gt_number)
  show ?thesis
    apply (intro conjI)
    subgoal using convert_format_unvalidated [OF run_webp h w d f] run_webp by simp
    subgoal using convert_format_unvalidated [OF run_jpeg h' w' d' f'] run_jpeg by simp
    subgoal using convert_format_unvalidated [OF run_header_refused h'' w'' d'' f''] run_header_refused
      by simp
    done
qed

section \<open>POST /convert: the close of the page\<close>

lemma convert_try_page:
  "triple (\<lambda>s. page s = None \<and> closes (trace s) = [] \<and> created (trace s) = [])
     (convert_try env body)
     (\<lambda>_ s. closes (trace s) = [] \<and> (\<exists>p. page s = Some p \<and> newPage_result env = Inr p))
     (\<lambda>a s. closes (trace s) = [] \<and>
             ((page s = None \<and> created (trace s) = [])
              \<or> (\<exists>p. page s = Some p \<and> newPage_result env = Inr p)))"
  unfolding convert_try_def wait_step_def Let_def
  apply (intro triple_if triple_send_return triple_bind_initBrowser)
      apply simp
     apply simp
    apply (rule triple_initBrowser; simp)
  apply (simp only: option.case)
  apply (rule triple_bind
      [where J = "\<lambda>p s. page s = None \<and> closes (trace s) = [] \<and> newPage_result env = Inr p"])
   apply (rule triple_await; simp)
  subgoal for h p
    apply (rule triple_seq
        [where J = "\<lambda>s. closes (trace s) = [] \<and> page s = Some p \<and> newPage_result env = Inr p"])
     apply (rule triple_set_page; simp)
    apply (intro triple_steps; simp)
    done
  done

lemma convert_attempt_page:
  "triple (\<lambda>s. page s = None \<and> closes (trace s) = [] \<and> created (trace s) = [])
     (try_catch (convert_try env body) (convert_catch env))
     (\<lambda>_ s. closes (trace s) = [] \<and>
             ((page s = None \<and> created (trace s) = [])
              \<or> (\<exists>p. page s = Some p \<and> newPage_result env = Inr p)))
     (\<lambda>a s. a = Return \<and> closes (trace s) = [] \<and>
             ((page s = None \<and> created (trace s) = [])
              \<or> (\<exists>p. page s = Some p \<and> newPage_result env = Inr p)))"
  apply (rule triple_try_catch
      [where H = "\<lambda>m s. closes (trace s) = [] \<and>
             ((page s = None \<and> created (trace s) = [])
              \<or> (\<exists>p. page s = Some p \<and> newPage_result env = Inr p))"])
   apply (rule triple_weaken [OF convert_try_page])
    apply blast
   apply (simp split: abrupt.splits)
  apply (simp add: convert_catch_def triple_def io_defs split: prod.splits)
  done

text \<open>How the close of the page settles plays no part before the \<^verbatim>\<open>finally\<close> block.\<close>

lemma attempt_close_result:
  "try_catch (convert_try (env\<lparr>close_result := c\<rparr>) body) (convert_catch (env\<lparr>close_result := c\<rparr>))
     = try_catch (convert_try env body) (convert_catch env)"
proof -
  have "initBrowser (env\<lparr>close_result := c\<rparr>) = initBrowser env"
    by (simp add: initBrowser_def)
  moreover have co: "to_string (env\<lparr>close_result := c\<rparr>) = to_string env"
    "parseInt (env\<lparr>close_result := c\<rparr>) = parseInt env"
    "js_gt (env\<lparr>close_result := c\<rparr>) = js_gt env"
    "screenshotOptions (env\<lparr>close_result := c\<rparr>) = screenshotOptions env"
    "image_headers (env\<lparr>close_result := c\<rparr>) = image_headers env"
    by (simp_all add: fun_eq_iff to_string_def parseInt_def js_gt_def to_number_def
          screenshotOptions_def image_headers_def cong: jsval.case_cong)
  moreover have "wait_step (env\<lparr>close_result := c\<rparr>) p w t = wait_step env p w t" for p w t
    by (simp add: wait_step_def co cong: if_cong)
  ultimately have "convert_try (env\<lparr>close_result := c\<rparr>) body = convert_try env body"
    by (simp add: convert_try_def Let_def cong: if_cong option.case_cong)
  moreover have "convert_catch (env\<lparr>close_result := c\<rparr>) = convert_catch env"
    by (rule ext) (simp add: convert_catch_def)
  ultimately show ?thesis by simp
qed

text \<open>
  C2. For every conversion request in which a page was created, the close of that page
  is called, once, as the last call of the run, on every way out of the \<^verbatim>\<open>try\<close> block;
  when the close itself fails, its error is logged and nothing more; and the handler
  ends normally. The run up to the close, the response in it, does not depend on how
  the close settles: whatever the close does, the run is the same up to it and nothing
  is sent after it.
\<close>

theorem convert_closes_page:
  assumes "convert env body (start b) = (res, s')"
    and "created (trace s') \<noteq> []"
  shows "\<exists>p pre. newPage_result env = Inr p \<and> res = Inr () \<and>
           trace s' = pre @ (case close_result env of
                               Inr _ \<Rightarrow> [Called (Close p) Resolved]
                             | Inl m \<Rightarrow> [Called (Close p) (Rejected m),
                                         Logged (''Error closing page: '' @ m)]) \<and>
           closes pre = [] \<and>
           (\<forall>c. \<exists>s2 post. convert (env\<lparr>close_result := c\<rparr>) body (start b) = (Inr (), s2) \<and>
                          trace s2 = pre @ post \<and> sent post = [])"
proof -
  obtain r1 s1 where a: "try_catch (convert_try env body) (convert_catch env) (start b) = (r1, s1)"
    by fastforce
  have p: "page (start b) = None \<and> closes (trace (start b)) = [] \<and> created (trace (start b)) = []"
    by (simp add: start_def)
  note f = tripleD [OF convert_attempt_page, of "start b", OF p a]
  from assms a have s': "s' = s1\<lparr>trace := trace s1 @
             (case page s1 of
                None \<Rightarrow> []
              | Some p \<Rightarrow>
                  (case close_result env of
                     Inr _ \<Rightarrow> [Called (Close p) Resolved]
                   | Inl m \<Rightarrow> [Called (Close p) (Rejected m), Logged (''Error closing page: '' @ m)]))\<rparr>"
    by (auto simp add: convert_eq)
  with assms(2) have "created (trace s1) \<noteq> []" by simp
  with f obtain p where pg: "page s1 = Some p" "newPage_result env = Inr p"
    and cl: "closes (trace s1) = []" and r1: "r1 = Inr () \<or> r1 = Inl Return"
    by (cases r1) auto
  from r1 assms(1) a have res: "res = Inr ()" by (auto simp add: convert_eq)
  have other: "\<exists>s2 post. convert (env\<lparr>close_result := c\<rparr>) body (start b) = (Inr (), s2) \<and>
                  trace s2 = trace s1 @ post \<and> sent post = []" for c
    using r1 a pg by (auto simp add: convert_eq attempt_close_result split: sum.splits)
  from s' pg cl res other show ?thesis
    by (intro exI [of _ p] exI [of _ "trace s1"]) (simp split: sum.splits)
qed

theorem convert_closes_page_witness:
  "\<exists>s'. convert (all_resolve\<lparr>waitForSelector_result := Inl ''timeout 200ms exceeded'',
                              close_result := Inl ''Target closed''\<rparr>)
           [''html'' \<mapsto> JStr ''<div>x</div>'', ''waitFor'' \<mapsto> JStr ''selector:#missing'',
            ''timeout'' \<mapsto> JNum (Fin 200)]
           (start (Some 1)) = (Inr (), s') \<and>
        created (trace s') \<noteq> [] \<and>
        (\<exists>pre. trace s' = pre @ [Called (Close 7) (Rejected ''Target closed''),
                                 Logged ''Error closing page: Target closed''] \<and>
               closes pre = [] \<and>
               (\<forall>c. \<exists>s2 post.
                   convert (all_resolve\<lparr>waitForSelector_result := Inl ''timeout 200ms exceeded'',
                                         close_result := c\<rparr>)
                     [''html'' \<mapsto> JStr ''<div>x</div>'', ''waitFor'' \<mapsto> JStr ''selector:#missing'',
                      ''timeout'' \<mapsto> JNum (Fin 200)]
                     (start (Some 1)) = (Inr (), s2) \<and>
                   trace s2 = pre @ post \<and> sent post = []))"
proof -
  note run = run_timeout
  have made: "created (trace
       \<lparr>browser = Some 1, page = Some 7,
     trace =
       [Called (NewPage 1) Resolved,
        Called (SetViewportSize 7 (Fin 1280) (Fin 720)) Resolved,
        Called (SetContent 7 (JStr ''<div>x</div>'') (Fin 200)) Resolved,
        Called (WaitForSelector 7 ''#missing'' (Fin 200)) (Rejected ''timeout 200ms exceeded''),
        Logged ''Conversion error: timeout 200ms exceeded'',
        Sent \<lparr>status = 408, headers = [],
              payload = Json [(''error'', ''Request timeout - page took too long to load''),
                              (''timestamp'', ''2024-01-01T00:00:00.000Z'')]\<rparr>,
        Called (Close 7) (Rejected ''Target closed''),
        Logged ''Error closing page: Target closed'']\<rparr>) \<noteq> []"
    by simp
  from convert_closes_page [OF run made] run made show ?thesis
    by (simp add: all_resolve_def)
qed

section \<open>POST /convert: the wait\<close>

text \<open>The wait of a run, once the capture is reached, is the one lines 160 to 168 resolve.\<close>

lemma convert_try_waits:
  fixes env body
  defines "W \<equiv>
          (if is_string (field body ''waitFor'' JNull)
              \<and> str_includes (to_string env (field body ''waitFor'' JNull)) ''selector:''
           then ForSelector (str_replace (to_string env (field body ''waitFor'' JNull)) ''selector:'' [])
                  (parseInt env (field body ''timeout'' (JNum (Fin 30000))))
           else if truthy (field body ''waitFor'' JNull)
                   \<and> (is_number (field body ''waitFor'' JNull)
                        \<or> \<not> isNaN (parseInt env (field body ''waitFor'' JNull)))
           then ForMillis (parseInt env (field body ''waitFor'' JNull))
           else NoWait)"
  shows "triple (\<lambda>s. waits (trace s) = [] \<and> captures (trace s) = [])
     (convert_try env body)
     (\<lambda>_ s. waits (trace s) = wait_list W)
     (\<lambda>a s. waits (trace s) = wait_list W \<or> (waits (trace s) = [] \<and> captures (trace s) = []))"
proof -
  have w: "triple (\<lambda>s. waits (trace s) = [] \<and> captures (trace s) = [])
             (wait_step env p (field body ''waitFor'' JNull) (field body ''timeout'' (JNum (Fin 30000))))
             (\<lambda>_ s. captures (trace s) = [] \<and> waits (trace s) = wait_list W)
             (\<lambda>a s. waits (trace s) = wait_list W \<or> (waits (trace s) = [] \<and> captures (trace s) = []))" for p
    unfolding wait_step_def Let_def W_def
    by (intro triple_if_stmt triple_if triple_await triple_ret;
        auto simp add: wait_list_def is_string_def to_string_def split: jsval.splits)
  show ?thesis
    unfolding convert_try_def Let_def
    apply (intro triple_if triple_send_return triple_bind_initBrowser)
       apply simp
      apply simp
     apply (rule triple_initBrowser; simp)
    apply (simp only: option.case)
    apply (rule triple_bind_inv)
     apply (rule triple_await; simp)
    apply (rule triple_seq_inv, rule triple_set_page, simp)
    apply (rule triple_seq_inv, (rule triple_await; simp))
    apply (rule triple_seq_inv, (intro triple_if_stmt triple_await; simp))
    apply (rule triple_seq_inv, (rule triple_await; simp))
    apply (rule triple_seq_inv, (intro triple_if_stmt triple_await; simp))
    apply (rule triple_seq [OF w])
    apply (rule triple_capture_send; simp)
    done
qed

lemma convert_attempt_waits:
  fixes env body
  defines "W \<equiv>
          (if is_string (field body ''waitFor'' JNull)
              \<and> str_includes (to_string env (field body ''waitFor'' JNull)) ''selector:''
           then ForSelector (str_replace (to_string env (field body ''waitFor'' JNull)) ''selector:'' [])
                  (parseInt env (field body ''timeout'' (JNum (Fin 30000))))
           else if truthy (field body ''waitFor'' JNull)
                   \<and> (is_number (field body ''waitFor'' JNull)
                        \<or> \<not> isNaN (parseInt env (field body ''waitFor'' JNull)))
           then ForMillis (parseInt env (field body ''waitFor'' JNull))
           else NoWait)"
  shows "triple (\<lambda>s. waits (trace s) = [] \<and> captures (trace s) = [])
     (try_catch (convert_try env body) (convert_catch env))
     (\<lambda>_ s. waits (trace s) = wait_list W \<or> (waits (trace s) = [] \<and> captures (trace s) = []))
     (\<lambda>a s. waits (trace s) = wait_list W \<or> (waits (trace s) = [] \<and> captures (trace s) = []))"
proof (rule triple_try_catch
    [where H = "\<lambda>m s. waits (trace s) = wait_list W \<or> (waits (trace s) = [] \<and> captures (trace s) = [])"])
  show "triple (\<lambda>s. waits (trace s) = [] \<and> captures (trace s) = [])
          (convert_try env body)
          (\<lambda>_ s. waits (trace s) = wait_list W \<or> (waits (trace s) = [] \<and> captures (trace s) = []))
          (\<lambda>a s. case a of
                    Throw e \<Rightarrow> waits (trace s) = wait_list W \<or> (waits (trace s) = [] \<and> captures (trace s) = [])
                  | Return \<Rightarrow> waits (trace s) = wait_list W \<or> (waits (trace s) = [] \<and> captures (trace s) = []))"
  proof -
    have "triple (\<lambda>s. waits (trace s) = [] \<and> captures (trace s) = [])
            (convert_try env body)
            (\<lambda>_ s. waits (trace s) = wait_list W)
            (\<lambda>a s. waits (trace s) = wait_list W \<or> (waits (trace s) = [] \<and> captures (trace s) = []))"
      unfolding W_def by (rule convert_try_waits)
    then show ?thesis
      by (rule triple_weaken) (simp_all split: abrupt.splits)
  qed
  show "triple (\<lambda>s. waits (trace s) = wait_list W \<or> (waits (trace s) = [] \<and> captures (trace s) = []))
          (convert_catch env e)
          (\<lambda>_ s. waits (trace s) = wait_list W \<or> (waits (trace s) = [] \<and> captures (trace s) = []))
          (\<lambda>a s. waits (trace s) = wait_list W \<or> (waits (trace s) = [] \<and> captures (trace s) = []))" for e
    by (simp add: convert_catch_def triple_def io_defs split: prod.splits)
qed

text \<open>
  C6, as the code has it. Claimed: a string prefixed with the marker is a selector,
  otherwise a value that parses as a number is a pause, otherwise there is no wait. The
  code tests \<^verbatim>\<open>includes\<close>, not a prefix; it tests the truthiness of waitFor first; and
  it takes a waitFor that is a number for a pause without asking what \<^verbatim>\<open>parseInt\<close>
  reads from it. For every run of the handler, its waits are none or are the one
  resolved as follows: if waitFor is a string that contains the marker \<^verbatim>\<open>selector:\<close>
  anywhere, the string without the first occurrence of the marker is the selector (for
  a string prefixed with the marker, the remainder), waited for with \<^verbatim>\<open>parseInt\<close> of
  the timeout as bound; otherwise, if waitFor is truthy (so not 0, not \<open>NaN\<close>, not
  \<^verbatim>\<open>false\<close>, not \<^verbatim>\<open>null\<close>) and is a number or \<^verbatim>\<open>parseInt\<close> reads a number from it, a
  pause of \<^verbatim>\<open>parseInt\<close> of waitFor milliseconds, which is \<open>NaN\<close> when waitFor is a
  number from which \<^verbatim>\<open>parseInt\<close> reads none, an infinity say; otherwise no wait. A run
  that reaches the capture has made exactly that wait.
\<close>

theorem convert_wait_resolution:
  assumes "convert env body (start b) = (res, s')"
  shows "let waitFor = field body ''waitFor'' JNull;
             timeout = field body ''timeout'' (JNum (Fin 30000));
             resolved =
               (if is_string waitFor \<and> str_includes (to_string env waitFor) ''selector:''
                then ForSelector (str_replace (to_string env waitFor) ''selector:'' [])
                       (parseInt env timeout)
                else if truthy waitFor \<and> (is_number waitFor \<or> \<not> isNaN (parseInt env waitFor))
                then ForMillis (parseInt env waitFor)
                else NoWait)
         in (waits (trace s') = [] \<or> waits (trace s') = wait_list resolved)
          \<and> (captures (trace s') \<noteq> [] \<longrightarrow> waits (trace s') = wait_list resolved)
          \<and> (\<forall>sel. waitFor = JStr (''selector:'' @ sel) \<longrightarrow>
                 resolved = ForSelector sel (parseInt env timeout))"
proof -
  obtain r1 s1 where a: "try_catch (convert_try env body) (convert_catch env) (start b) = (r1, s1)"
    by fastforce
  have p: "waits (trace (start b)) = [] \<and> captures (trace (start b)) = []"
    by (simp add: start_def)
  note f = tripleD [OF convert_attempt_waits, of "start b", OF p a]
  from assms a have w: "waits (trace s') = waits (trace s1)" and c: "captures (trace s') = captures (trace s1)"
    by (auto simp add: convert_eq)
  define waitFor where "waitFor = field body ''waitFor'' JNull"
  define timeout where "timeout = field body ''timeout'' (JNum (Fin 30000))"
  define resolved where "resolved =
               (if is_string waitFor \<and> str_includes (to_string env waitFor) ''selector:''
                then ForSelector (str_replace (to_string env waitFor) ''selector:'' [])
                       (parseInt env timeout)
                else if truthy waitFor \<and> (is_number waitFor \<or> \<not> isNaN (parseInt env waitFor))
                then ForMillis (parseInt env waitFor)
                else NoWait)"
  from f w c have one: "waits (trace s') = [] \<or> waits (trace s') = wait_list resolved"
    and two: "captures (trace s') \<noteq> [] \<longrightarrow> waits (trace s') = wait_list resolved"
    unfolding resolved_def waitFor_def timeout_def by (cases r1; auto)+
  have three: "resolved = ForSelector sel (parseInt env timeout)" if "waitFor = JStr (''selector:'' @ sel)" for sel
    using that str_includes_prefix [of "''selector:''" sel]
      str_replace_prefix [of "''selector:''" sel "[]"]
    unfolding resolved_def by (simp add: is_string_def to_string_def)
  from one two three show ?thesis
    unfolding Let_def resolved_def waitFor_def timeout_def by blast
qed

theorem convert_wait_resolution_witness:
  "(\<exists>s'. convert all_resolve [''html'' \<mapsto> JStr ''<p>x</p>'', ''waitFor'' \<mapsto> JStr ''selector:#app'']
           (start (Some 1)) = (Inr (), s') \<and>
        captures (trace s') \<noteq> [] \<and>
        waits (trace s') = [ForSelector ''#app'' (Fin 30000)])
   \<and> (\<exists>s'. convert all_resolve [''html'' \<mapsto> JStr ''<p>x</p>'', ''waitFor'' \<mapsto> JNum (Fin 250)]
           (start (Some 1)) = (Inr (), s') \<and>
        captures (trace s') \<noteq> [] \<and>
        waits (trace s') = [ForMillis (Fin 250)])
   \<and> (\<exists>s'. convert all_resolve [''html'' \<mapsto> JStr ''<p>x</p>'', ''waitFor'' \<mapsto> JNum PosInf]
           (start (Some 1)) = (Inr (), s') \<and>
        captures (trace s') \<noteq> [] \<and>
        waits (trace s') = [ForMillis NotANumber])"
proof -
  from convert_wait_resolution [OF run_marker_prefix] convert_wait_resolution [OF run_pause]
    convert_wait_resolution [OF run_infinity] run_marker_prefix run_pause run_infinity
  show ?thesis by simp
qed

text \<open>
  C6, as claimed, fails on a waitFor that holds the marker after its first character:
  \<^verbatim>\<open>x selector:#a\<close> is not prefixed with the marker and does not parse as a number, so
  that the claim has no wait, and the handler waits for the selector \<^verbatim>\<open>x #a\<close>.
\<close>

theorem convert_wait_counterexample:
  "wait_list (spec_waitFor all_resolve (JStr ''x selector:#a'') (JNum (Fin 30000))) = [] \<and>
   captures (trace (snd (convert all_resolve
                           [''html'' \<mapsto> JStr ''<p>x</p>'', ''waitFor'' \<mapsto> JStr ''x selector:#a'']
                           (start (Some 1))))) \<noteq> [] \<and>
   waits (trace (snd (convert all_resolve
                        [''html'' \<mapsto> JStr ''<p>x</p>'', ''waitFor'' \<mapsto> JStr ''x selector:#a'']
                        (start (Some 1)))))
     = [ForSelector ''x #a'' (Fin 30000)]"
proof -
  have "spec_waitFor all_resolve (JStr ''x selector:#a'') (JNum (Fin 30000)) = NoWait"
    by (simp add: spec_waitFor_def is_string_def isNaN_def parseInt_def to_string_def all_resolve_def
          ascii_parseInt_def is_ws_def is_digit_def digit_val_def)
  then show ?thesis
    unfolding run_marker_inside by (simp add: wait_list_def)
qed

text \<open>
  Where the code and the specification's wording agree: on every waitFor but a string
  that holds the marker without starting with it, a falsy value from which
  \<^verbatim>\<open>parseInt\<close> reads a number (the number 0), and a truthy number from which it reads
  none (an infinity).
\<close>

lemma wait_resolution_agrees:
  assumes "is_string waitFor \<and> str_includes (to_string env waitFor) ''selector:''
             \<longrightarrow> prefix ''selector:'' (to_string env waitFor)"
    and "\<not> truthy waitFor \<longrightarrow> isNaN (parseInt env waitFor)"
    and "truthy waitFor \<and> is_number waitFor \<longrightarrow> \<not> isNaN (parseInt env waitFor)"
  shows "(if is_string waitFor \<and> str_includes (to_string env waitFor) ''selector:''
          then ForSelector (str_replace (to_string env waitFor) ''selector:'' []) (parseInt env timeout)
          else if truthy waitFor \<and> (is_number waitFor \<or> \<not> isNaN (parseInt env waitFor))
          then ForMillis (parseInt env waitFor)
          else NoWait) = spec_waitFor env waitFor timeout"
proof (cases "is_string waitFor \<and> str_includes (to_string env waitFor) ''selector:''")
  case True
  with assms(1) obtain sel where s: "to_string env waitFor = ''selector:'' @ sel"
    by (auto simp: prefix_def)
  with True str_replace_prefix [of "''selector:''" sel "[]"] show ?thesis
    by (simp add: spec_waitFor_def)
next
  case False
  have np: "\<not> (is_string waitFor \<and> prefix ''selector:'' (to_string env waitFor))"
  proof
    assume "is_string waitFor \<and> prefix ''selector:'' (to_string env waitFor)"
    then obtain sel where "is_string waitFor" "to_string env waitFor = ''selector:'' @ sel"
      by (auto simp: prefix_def)
    with str_includes_prefix [of "''selector:''" sel] False show False by simp
  qed
  with False assms(2,3) show ?thesis
    by (auto simp add: spec_waitFor_def)
qed

end
